theory Spec2Isabelle
  imports Complex_Main
begin

section \<open>JavaScript numbers and strings\<close>

text \<open>
  The server is TypeScript. Its \<^verbatim>\<open>number\<close> values are modelled as \<^typ>\<open>real\<close>
  (integers produced by \<^verbatim>\<open>Math.round\<close> and \<^verbatim>\<open>Math.floor\<close> as \<^typ>\<open>int\<close>): the
  arithmetic below is the exact arithmetic of the expressions in the source, and the
  rounding error of IEEE doubles is not part of the model; nor is \<^verbatim>\<open>NaN\<close>, which
  the source can produce from finite inputs only in \<^verbatim>\<open>calculateDistance\<close> (see there).
  A value that may be
  \<^verbatim>\<open>undefined\<close> or \<^verbatim>\<open>null\<close> is an \<^typ>\<open>'a option\<close>. Strings are \<^typ>\<open>string\<close>.
\<close>

text \<open>\<^verbatim>\<open>Math.round\<close>: the nearest integer, a tie going up.\<close>

definition Math_round :: "real \<Rightarrow> int" where
  "Math_round x = \<lfloor>x + 1 / 2\<rfloor>"

definition Math_floor :: "real \<Rightarrow> int" where
  "Math_floor x = \<lfloor>x\<rfloor>"

text \<open>The remainder operator \<^verbatim>\<open>%\<close> on integers: the sign follows the dividend.\<close>

definition js_rem :: "int \<Rightarrow> int \<Rightarrow> int" where
  "js_rem a b = sgn a * (\<bar>a\<bar> mod \<bar>b\<bar>)"

text \<open>Decimal rendering of an integer, as a template literal prints it.\<close>

definition digit :: "nat \<Rightarrow> char" where
  "digit d = ''0123456789'' ! (d mod 10)"

function showNat :: "nat \<Rightarrow> string" where
  "showNat n = (if n < 10 then [digit n] else showNat (n div 10) @ [digit (n mod 10)])"
  by pat_completeness auto
termination
  by (relation "measure (\<lambda>n. n)") auto

declare showNat.simps [simp del]

definition showInt :: "int \<Rightarrow> string" where
  "showInt i = (if i < 0 then ''-'' @ showNat (nat (- i)) else showNat (nat i))"

text \<open>
  \<^verbatim>\<open>x.toFixed(1)\<close>: the sign, then the integer \<open>n\<close> nearest to \<open>10 * |x|\<close> (a tie
  going up) printed with one digit after the point. The exponent notation that
  \<^verbatim>\<open>toFixed\<close> switches to from \<open>10^21\<close> on is not modelled.
\<close>

definition toFixed1 :: "real \<Rightarrow> string" where
  "toFixed1 x =
     (let n = nat \<lfloor>\<bar>x\<bar> * 10 + 1 / 2\<rfloor>
      in (if x < 0 then ''-'' else '''') @ showNat (n div 10) @ ''.'' @ [digit (n mod 10)])"

text \<open>
  \<^verbatim>\<open>toLowerCase\<close>, on the ASCII letters. It is applied to the labels of \<open>typeMap\<close> and
  to the default label only.
\<close>

definition lowerTable :: "(char \<times> char) list" where
  "lowerTable = zip ''ABCDEFGHIJKLMNOPQRSTUVWXYZ'' ''abcdefghijklmnopqrstuvwxyz''"

definition toLowerChar :: "char \<Rightarrow> char" where
  "toLowerChar c = (case map_of lowerTable c of None \<Rightarrow> c | Some l \<Rightarrow> l)"

definition toLowerCase :: "string \<Rightarrow> string" where
  "toLowerCase s = map toLowerChar s"

text \<open>
  \<^verbatim>\<open>Math.atan2(y, x)\<close> on the reals: the angle of the point \<open>(x, y)\<close>, in
  \<open>(-\<pi>, \<pi>]\<close>, and 0 at the origin.
\<close>

definition Math_atan2 :: "real \<Rightarrow> real \<Rightarrow> real" where
  "Math_atan2 y x =
     (if 0 < x then arctan (y / x)
      else if x < 0 \<and> 0 \<le> y then arctan (y / x) + pi
      else if x < 0 \<and> y < 0 then arctan (y / x) - pi
      else if 0 < y then pi / 2
      else if y < 0 then - pi / 2
      else 0)"

text \<open>Truthiness of an optional number and of an optional string.\<close>

definition truthyNum :: "real option \<Rightarrow> bool" where
  "truthyNum v = (case v of None \<Rightarrow> False | Some x \<Rightarrow> x \<noteq> 0)"

definition truthyStr :: "string option \<Rightarrow> bool" where
  "truthyStr v = (case v of None \<Rightarrow> False | Some s \<Rightarrow> s \<noteq> [])"

text \<open>An optional string inside a template literal.\<close>

definition interpolate :: "string option \<Rightarrow> string" where
  "interpolate v = (case v of None \<Rightarrow> ''undefined'' | Some s \<Rightarrow> s)"


section \<open>The place service: data\<close>

text \<open>
  \<^verbatim>\<open>GooglePlace\<close> keeps the field names of the interface; \<open>geometry\<close> is the
  \<open>(lat, lng)\<close> pair of \<^verbatim>\<open>geometry.location\<close>, absent when the object has none (the
  code guards the read with \<^verbatim>\<open>place.geometry?.location\<close>). The fields of
  \<^verbatim>\<open>TravelSuggestion\<close> carry the prefix \<open>ts_\<close>.
\<close>

record GooglePhoto =
  photo_reference :: string
  height :: real
  width :: real

record GooglePlace =
  place_id :: string
  name :: string
  geometry :: "(real \<times> real) option"
  types :: "string list"
  rating :: "real option"
  user_ratings_total :: "real option"
  vicinity :: "string option"
  photos :: "GooglePhoto list option"

record TravelSuggestion =
  ts_id :: string
  ts_name :: string
  ts_distance :: string
  ts_travelTime :: string
  ts_type :: string
  ts_description :: string
  ts_highlights :: "string list"
  ts_bestFor :: "string list"
  ts_rating :: real
  ts_location :: string
  ts_photos :: "string list"

text \<open>
  The process environment the service reads: \<^verbatim>\<open>GOOGLE_PLACES_API_KEY\<close> (the field
  \<^verbatim>\<open>API_KEY\<close> of the service) and \<^verbatim>\<open>GOOGLE_MAPS_API\<close>.
\<close>

record environment =
  GOOGLE_PLACES_API_KEY :: "string option"
  GOOGLE_MAPS_API :: "string option"


section \<open>The place service: classification\<close>

definition travelTypes :: "string list" where
  "travelTypes =
     [''tourist_attraction'', ''museum'', ''amusement_park'', ''zoo'', ''aquarium'',
      ''art_gallery'', ''park'', ''natural_feature'', ''point_of_interest'',
      ''establishment'']"

definition isValidTravelDestination :: "GooglePlace \<Rightarrow> bool" where
  "isValidTravelDestination place =
     list_ex (\<lambda>t. List.member travelTypes t) (types place)"

text \<open>
  \<open>typeMap\<close> is the object literal of \<^verbatim>\<open>getPlaceType\<close>, read by its own nine keys.
  \<open>getPlaceType\<close> below is the function on places whose tags are place-type identifiers
  of the search provider; what the language does at any tag at all is \<open>typeMapValue\<close>
  and \<open>getPlaceTypeValue\<close>, further down.
\<close>

definition typeMapEntries :: "(string \<times> string) list" where
  "typeMapEntries =
     [(''tourist_attraction'', ''Tourist Attraction''),
      (''museum'', ''Museum''),
      (''amusement_park'', ''Amusement Park''),
      (''zoo'', ''Zoo''),
      (''aquarium'', ''Aquarium''),
      (''art_gallery'', ''Art Gallery''),
      (''park'', ''Park''),
      (''natural_feature'', ''Natural Feature''),
      (''point_of_interest'', ''Point of Interest'')]"

definition typeMap :: "string \<Rightarrow> string option" where
  "typeMap = map_of typeMapEntries"

text \<open>The loop of \<^verbatim>\<open>getPlaceType\<close> over the tags of the place, in their own order.\<close>

fun getPlaceTypeLoop :: "string list \<Rightarrow> string" where
  "getPlaceTypeLoop [] = ''Attraction''"
| "getPlaceTypeLoop (t # ts) =
     (case typeMap t of Some label \<Rightarrow> label | None \<Rightarrow> getPlaceTypeLoop ts)"

definition getPlaceType :: "GooglePlace \<Rightarrow> string" where
  "getPlaceType place = getPlaceTypeLoop (types place)"

text \<open>
  \<^verbatim>\<open>typeMap[type]\<close> as the language evaluates it. At one of its own keys the literal
  has the label. At any other name it has what every object inherits under that name,
  if anything: the names are those of \<open>objectPrototypeMembers\<close>, and the member is a
  function (for \<^verbatim>\<open>__proto__\<close> the prototype object), so it passes the test
  \<^verbatim>\<open>if (typeMap[type])\<close> and is returned, and it is not a string. At every other
  name the value is \<^verbatim>\<open>undefined\<close>, here \<open>None\<close>.
\<close>

definition objectPrototypeMembers :: "string list" where
  "objectPrototypeMembers =
     [''constructor'', ''__defineGetter__'', ''__defineSetter__'', ''hasOwnProperty'',
      ''__lookupGetter__'', ''__lookupSetter__'', ''isPrototypeOf'',
      ''propertyIsEnumerable'', ''toString'', ''valueOf'', ''__proto__'',
      ''toLocaleString'']"

datatype js_value = StringValue string | InheritedMember string

definition typeMapValue :: "string \<Rightarrow> js_value option" where
  "typeMapValue t =
     (case typeMap t of
        Some label \<Rightarrow> Some (StringValue label)
      | None \<Rightarrow>
          if List.member objectPrototypeMembers t then Some (InheritedMember t) else None)"

fun getPlaceTypeValueLoop :: "string list \<Rightarrow> js_value" where
  "getPlaceTypeValueLoop [] = StringValue ''Attraction''"
| "getPlaceTypeValueLoop (t # ts) =
     (case typeMapValue t of Some v \<Rightarrow> v | None \<Rightarrow> getPlaceTypeValueLoop ts)"

definition getPlaceTypeValue :: "GooglePlace \<Rightarrow> js_value" where
  "getPlaceTypeValue place = getPlaceTypeValueLoop (types place)"

definition array_includes :: "string list \<Rightarrow> string \<Rightarrow> bool" where
  "array_includes xs x = List.member xs x"

definition generateDescription :: "GooglePlace \<Rightarrow> string" where
  "generateDescription place =
     ''A popular '' @ toLowerCase (getPlaceType place) @ '' in the area. '' @ name place
       @ '' offers visitors an authentic local experience and is well-regarded by travelers.''"

definition generateHighlights :: "GooglePlace \<Rightarrow> string list" where
  "generateHighlights place =
     (let h1 = (case rating place of
                  Some r \<Rightarrow> if r \<noteq> 0 \<and> 4.5 \<le> r then [''Highly rated destination''] else []
                | None \<Rightarrow> []);
          h2 = (case user_ratings_total place of
                  Some n \<Rightarrow> if n \<noteq> 0 \<and> 100 < n then [''Popular with visitors''] else []
                | None \<Rightarrow> []);
          h3 = (case photos place of
                  Some ps \<Rightarrow> if 0 < length ps then [''Photo-worthy location''] else []
                | None \<Rightarrow> []);
          h4 = (if array_includes (types place) ''museum''
                  then [''Educational experience'', ''Cultural significance'']
                else if array_includes (types place) ''park''
                  then [''Outdoor activities'', ''Nature experience'']
                else if array_includes (types place) ''tourist_attraction''
                  then [''Must-see destination'', ''Local landmark'']
                else [])
      in take 3 (h1 @ h2 @ h3 @ h4))"

definition determineBestFor :: "GooglePlace \<Rightarrow> string list" where
  "determineBestFor place =
     (let b1 = (if array_includes (types place) ''museum'' \<or> array_includes (types place) ''art_gallery''
                  then [''Culture enthusiasts'', ''History buffs''] else []);
          b2 = (if array_includes (types place) ''park'' \<or> array_includes (types place) ''natural_feature''
                  then [''Nature lovers'', ''Outdoor activities''] else []);
          b3 = (if array_includes (types place) ''amusement_park'' \<or> array_includes (types place) ''zoo''
                  then [''Families'', ''Adventure seekers''] else []);
          b4 = (if array_includes (types place) ''tourist_attraction''
                  then [''First-time visitors'', ''Sightseeing''] else []);
          bestFor = b1 @ b2 @ b3 @ b4;
          bestFor' = (if length bestFor = 0
                        then [''All travelers'', ''Local exploration''] else bestFor)
      in take 2 bestFor')"


section \<open>The place service: distance and travel time\<close>

text \<open>
  The service is in the sources twice. The copy with \<^verbatim>\<open>calculateDistance\<close> (the
  great-circle distance) is embedded under the names of the source. The copy at
  \<^verbatim>\<open>server/services/google-places.ts\<close> draws the distance with \<^verbatim>\<open>Math.random\<close>;
  where it differs, its functions carry the suffix \<open>_svc\<close>. Both copies share
  \<open>isValidTravelDestination\<close>, \<open>getPlaceType\<close>, \<open>generateHighlights\<close>,
  \<open>determineBestFor\<close> and \<open>getFallbackSuggestions\<close> word for word.
\<close>

text \<open>
  \<open>calculateDistance\<close> is the value of the expression of the source in exact
  arithmetic. In doubles the term \<open>a\<close> is rounded, and for two points that are
  antipodal or nearly so it can come out one unit in the last place above 1; then
  \<^verbatim>\<open>Math.sqrt(1 - a)\<close> is \<^verbatim>\<open>NaN\<close> and so is the distance the source returns.
  The definition does not show that, and no statement below is about the value of
  \<open>calculateDistance\<close>.
\<close>

definition calculateDistance :: "real \<Rightarrow> real \<Rightarrow> real \<Rightarrow> real \<Rightarrow> real" where
  "calculateDistance lat1 lng1 lat2 lng2 =
     (let R = 6371;
          dLat = ((lat2 - lat1) * pi) / 180;
          dLng = ((lng2 - lng1) * pi) / 180;
          a = sin (dLat / 2) * sin (dLat / 2)
              + cos ((lat1 * pi) / 180) * cos ((lat2 * pi) / 180)
                * sin (dLng / 2) * sin (dLng / 2);
          c = 2 * Math_atan2 (sqrt a) (sqrt (1 - a))
      in R * c)"

text \<open>The local constants of \<^verbatim>\<open>mapPlaceToSuggestion\<close>, one definition each.\<close>

definition distanceKm :: "GooglePlace \<Rightarrow> real option \<Rightarrow> real option \<Rightarrow> real" where
  "distanceKm place userLat userLng =
     (if truthyNum userLat \<and> truthyNum userLng \<and> geometry place \<noteq> None
      then calculateDistance (the userLat) (the userLng)
             (fst (the (geometry place))) (snd (the (geometry place)))
      else 5)"

definition distanceStr :: "real \<Rightarrow> string" where
  "distanceStr d =
     (if d < 1 then showInt (Math_round (d * 1000)) @ ''m'' else toFixed1 d @ ''km'')"

definition travelTimeMinutes :: "real \<Rightarrow> int" where
  "travelTimeMinutes d = Math_round ((d / 40) * 60)"

definition travelTimeStr :: "int \<Rightarrow> string" where
  "travelTimeStr m =
     (if m < 60 then showInt m @ ''min''
      else showInt (Math_floor (of_int m / 60)) @ ''h '' @ showInt (js_rem m 60) @ ''min'')"

definition photoUrl :: "string option \<Rightarrow> GooglePhoto \<Rightarrow> string" where
  "photoUrl key photo =
     ''https://maps.googleapis.com/maps/api/place/photo?maxwidth=400&photoreference=''
       @ photo_reference photo @ ''&key='' @ interpolate key"

definition photoUrls :: "string option \<Rightarrow> GooglePlace \<Rightarrow> string list" where
  "photoUrls key place =
     (case photos place of None \<Rightarrow> [] | Some ps \<Rightarrow> map (photoUrl key) (take 3 ps))"

definition ratingOrDefault :: "GooglePlace \<Rightarrow> real" where
  "ratingOrDefault place = (if truthyNum (rating place) then the (rating place) else 4.0)"

definition locationOrDefault :: "GooglePlace \<Rightarrow> string" where
  "locationOrDefault place =
     (if truthyStr (vicinity place) then the (vicinity place) else ''Location not specified'')"

definition mapPlaceToSuggestion ::
  "environment \<Rightarrow> GooglePlace \<Rightarrow> real option \<Rightarrow> real option \<Rightarrow> TravelSuggestion" where
  "mapPlaceToSuggestion env place userLat userLng =
     (let d = distanceKm place userLat userLng
      in \<lparr> ts_id = place_id place,
           ts_name = name place,
           ts_distance = distanceStr d,
           ts_travelTime = travelTimeStr (travelTimeMinutes d),
           ts_type = getPlaceType place,
           ts_description = generateDescription place,
           ts_highlights = generateHighlights place,
           ts_bestFor = determineBestFor place,
           ts_rating = ratingOrDefault place,
           ts_location = locationOrDefault place,
           ts_photos = photoUrls (GOOGLE_PLACES_API_KEY env) place \<rparr>)"

definition convertToTravelSuggestions ::
  "environment \<Rightarrow> GooglePlace list \<Rightarrow> real option \<Rightarrow> real option \<Rightarrow> TravelSuggestion list" where
  "convertToTravelSuggestions env places userLat userLng =
     take 6 (map (\<lambda>place. mapPlaceToSuggestion env place userLat userLng)
               (filter isValidTravelDestination places))"


subsection \<open>The copy at server/services/google-places.ts\<close>

text \<open>
  \<^verbatim>\<open>Math.random()\<close> is an input of the model: \<open>r\<close> is the number one call returns, and
  \<open>rnd i\<close> the number the \<open>i\<close>-th call of one conversion returns. The rating inside the
  description is printed by the number-to-string conversion of the language, a
  parameter \<open>numberToString\<close>.
\<close>

definition distanceKm_svc :: "real \<Rightarrow> real" where
  "distanceKm_svc r = r * 20 + 1"

definition travelTimeMinutes_svc :: "real \<Rightarrow> int" where
  "travelTimeMinutes_svc d = Math_round (d * 12)"

definition travelTimeStr_svc :: "int \<Rightarrow> string" where
  "travelTimeStr_svc m =
     (if m < 60 then showInt m @ ''min''
      else showInt (Math_round (of_int m / 60)) @ ''h '' @ showInt (js_rem m 60) @ ''min'')"

definition generateDescription_svc :: "(real \<Rightarrow> string) \<Rightarrow> GooglePlace \<Rightarrow> string" where
  "generateDescription_svc numberToString place =
     (let rating_txt = (if truthyNum (rating place)
                          then '' with '' @ numberToString (the (rating place)) @ '' stars''
                        else [])
      in ''A popular '' @ toLowerCase (getPlaceType place) @ '' in the area'' @ rating_txt
           @ ''. '' @ name place
           @ '' offers visitors an authentic local experience and is well-regarded by travelers.'')"

definition mapPlaceToSuggestion_svc ::
  "(real \<Rightarrow> string) \<Rightarrow> environment \<Rightarrow> GooglePlace \<Rightarrow> real \<Rightarrow> TravelSuggestion" where
  "mapPlaceToSuggestion_svc numberToString env place r =
     (let d = distanceKm_svc r
      in \<lparr> ts_id = place_id place,
           ts_name = name place,
           ts_distance = distanceStr d,
           ts_travelTime = travelTimeStr_svc (travelTimeMinutes_svc d),
           ts_type = getPlaceType place,
           ts_description = generateDescription_svc numberToString place,
           ts_highlights = generateHighlights place,
           ts_bestFor = determineBestFor place,
           ts_rating = ratingOrDefault place,
           ts_location = locationOrDefault place,
           ts_photos = photoUrls (GOOGLE_MAPS_API env) place \<rparr>)"

definition convertToTravelSuggestions_svc ::
  "(real \<Rightarrow> string) \<Rightarrow> environment \<Rightarrow> GooglePlace list \<Rightarrow> (nat \<Rightarrow> real)
     \<Rightarrow> TravelSuggestion list" where
  "convertToTravelSuggestions_svc numberToString env places rnd =
     map (\<lambda>(i, place). mapPlaceToSuggestion_svc numberToString env place (rnd i))
       (enumerate 0 (take 8 (filter isValidTravelDestination places)))"


subsection \<open>The fallback list\<close>

definition getFallbackSuggestions :: "TravelSuggestion list" where
  "getFallbackSuggestions =
     [ \<lparr> ts_id = ''fallback-1'',
         ts_name = ''Local Discovery Walk'',
         ts_distance = ''2.5km'',
         ts_travelTime = ''30min'',
         ts_type = ''Walking Tour'',
         ts_description =
           ''Explore the charming streets and hidden gems of your neighborhood.'',
         ts_highlights = [''Local culture'', ''Hidden spots'', ''Photo opportunities''],
         ts_bestFor = [''Explorers'', ''Photography''],
         ts_rating = 4.2,
         ts_location = ''City Center'',
         ts_photos = [] \<rparr>,
       \<lparr> ts_id = ''fallback-2'',
         ts_name = ''Historic Downtown'',
         ts_distance = ''5.1km'',
         ts_travelTime = ''45min'',
         ts_type = ''Historic District'',
         ts_description =
           ''Discover the rich history and architecture of the downtown area.'',
         ts_highlights = [''Historic buildings'', ''Local restaurants'', ''Shopping''],
         ts_bestFor = [''History buffs'', ''Architecture lovers''],
         ts_rating = 4.5,
         ts_location = ''Downtown'',
         ts_photos = [] \<rparr>,
       \<lparr> ts_id = ''fallback-3'',
         ts_name = ''City Park & Gardens'',
         ts_distance = ''3.8km'',
         ts_travelTime = ''20min'',
         ts_type = ''Park'',
         ts_description =
           ''Relax and enjoy nature in the beautiful city park with gardens.'',
         ts_highlights = [''Peaceful atmosphere'', ''Beautiful gardens'', ''Walking trails''],
         ts_bestFor = [''Nature lovers'', ''Relaxation''],
         ts_rating = 4.3,
         ts_location = ''Park District'',
         ts_photos = [] \<rparr> ]"


section \<open>The place search and the location-suggestions route\<close>

text \<open>
  What the search provider answers. \<open>fetch\<close> is the collaborator: it maps the
  latitude, the longitude, the radius (\<open>None\<close> is \<^verbatim>\<open>NaN\<close>) and the key of the
  request URL to the outcome of the call. A thrown value is an \<open>error\<close>.
\<close>

record GooglePlacesResponse =
  results :: "GooglePlace list option"
  status :: string
  error_message :: "string option"

datatype fetch_result =
    NetworkFailure
  | HttpFailure nat string
  | BodyNotJson
  | Body GooglePlacesResponse

datatype error = Error string | FetchError | SyntaxError

definition searchNearbyPlaces ::
  "environment \<Rightarrow> (real \<Rightarrow> real \<Rightarrow> int option \<Rightarrow> string \<Rightarrow> fetch_result)
     \<Rightarrow> real \<Rightarrow> real \<Rightarrow> int option \<Rightarrow> error + GooglePlace list" where
  "searchNearbyPlaces env fetch lat lng radius =
     (if \<not> truthyStr (GOOGLE_PLACES_API_KEY env)
        then Inl (Error ''Google Places API key not configured'')
      else
        (case fetch lat lng radius (the (GOOGLE_PLACES_API_KEY env)) of
           NetworkFailure \<Rightarrow> Inl FetchError
         | HttpFailure code statusText \<Rightarrow>
             Inl (Error (''Google Places API error: '' @ showNat code @ '' '' @ statusText))
         | BodyNotJson \<Rightarrow> Inl SyntaxError
         | Body data \<Rightarrow>
             if status data \<noteq> ''OK''
               then Inl (Error (''Google Places API error: '' @ status data @ '' - ''
                          @ (if truthyStr (error_message data) then the (error_message data)
                             else ''Unknown error'')))
             else Inr (case results data of None \<Rightarrow> [] | Some rs \<Rightarrow> rs)))"

text \<open>
  A response of a route: \<open>Json code payload\<close> is \<^verbatim>\<open>res.status(code).json(payload)\<close>,
  \<open>Failure code msg\<close> is \<^verbatim>\<open>res.status(code).json({ message: msg })\<close>.
\<close>

datatype 'a response = Json nat 'a | Failure nat string

record suggestions_query =
  q_lat :: "string option"
  q_lng :: "string option"
  q_radius :: "string option"

text \<open>
  The handler of \<^verbatim>\<open>GET /api/location-suggestions\<close>. \<open>parseFloat\<close> and \<open>parseInt\<close>
  are the functions of the language (\<open>None\<close> is \<^verbatim>\<open>NaN\<close>); \<open>convert\<close> is
  \<^verbatim>\<open>googlePlacesService.convertToTravelSuggestions\<close>, called with the places alone.
\<close>

definition location_suggestions_route ::
  "(GooglePlace list \<Rightarrow> TravelSuggestion list)
     \<Rightarrow> (string \<Rightarrow> real option) \<Rightarrow> (string \<Rightarrow> int option) \<Rightarrow> environment
     \<Rightarrow> (real \<Rightarrow> real \<Rightarrow> int option \<Rightarrow> string \<Rightarrow> fetch_result)
     \<Rightarrow> suggestions_query \<Rightarrow> (TravelSuggestion list) response" where
  "location_suggestions_route convert parseFloat parseInt env fetch q =
     (if \<not> truthyStr (q_lat q) \<or> \<not> truthyStr (q_lng q)
        then Failure 400 ''Latitude and longitude are required''
      else
        (let latitude = parseFloat (the (q_lat q));
             longitude = parseFloat (the (q_lng q));
             searchRadius = (if truthyStr (q_radius q) then parseInt (the (q_radius q))
                             else Some 25000)
         in case (latitude, longitude) of
              (Some la, Some lo) \<Rightarrow>
                (case searchNearbyPlaces env fetch la lo searchRadius of
                   Inr places \<Rightarrow> Json 200 (convert places)
                 | Inl apiError \<Rightarrow> Json 200 getFallbackSuggestions)
            | _ \<Rightarrow> Failure 400 ''Invalid coordinates''))"

text \<open>
  The route over each copy of the service. \<^verbatim>\<open>routes.ts\<close> imports
  \<^verbatim>\<open>./services/google-places\<close>, the copy that draws the distance, so the route as
  the sources wire it is \<open>location_suggestions_svc\<close>; \<open>location_suggestions\<close> is the
  same handler over the copy with \<^verbatim>\<open>calculateDistance\<close>.
\<close>

definition location_suggestions ::
  "(string \<Rightarrow> real option) \<Rightarrow> (string \<Rightarrow> int option) \<Rightarrow> environment
     \<Rightarrow> (real \<Rightarrow> real \<Rightarrow> int option \<Rightarrow> string \<Rightarrow> fetch_result)
     \<Rightarrow> suggestions_query \<Rightarrow> (TravelSuggestion list) response" where
  "location_suggestions parseFloat parseInt env fetch q =
     location_suggestions_route (\<lambda>places. convertToTravelSuggestions env places None None)
       parseFloat parseInt env fetch q"

definition location_suggestions_svc ::
  "(real \<Rightarrow> string) \<Rightarrow> (nat \<Rightarrow> real)
     \<Rightarrow> (string \<Rightarrow> real option) \<Rightarrow> (string \<Rightarrow> int option) \<Rightarrow> environment
     \<Rightarrow> (real \<Rightarrow> real \<Rightarrow> int option \<Rightarrow> string \<Rightarrow> fetch_result)
     \<Rightarrow> suggestions_query \<Rightarrow> (TravelSuggestion list) response" where
  "location_suggestions_svc numberToString rnd parseFloat parseInt env fetch q =
     location_suggestions_route
       (\<lambda>places. convertToTravelSuggestions_svc numberToString env places rnd)
       parseFloat parseInt env fetch q"


text \<open>
  The answer of the search provider with the coordinates of its places replaced:
  \<open>g place\<close> is the new \<open>geometry\<close> of \<open>place\<close>. Everything else of the answer is kept.
\<close>

definition relocatePlaces ::
  "(GooglePlace \<Rightarrow> (real \<times> real) option) \<Rightarrow> GooglePlace list \<Rightarrow> GooglePlace list" where
  "relocatePlaces g places = map (\<lambda>p. p\<lparr>geometry := g p\<rparr>) places"

definition relocate ::
  "(GooglePlace \<Rightarrow> (real \<times> real) option) \<Rightarrow> fetch_result \<Rightarrow> fetch_result" where
  "relocate g outcome =
     (case outcome of
        Body data \<Rightarrow> Body (data\<lparr>results := map_option (relocatePlaces g) (results data)\<rparr>)
      | other \<Rightarrow> other)"


section \<open>Itineraries: records and storage\<close>

text \<open>
  A parsed JSON value; \<open>JNull\<close> is \<^verbatim>\<open>null\<close>. The column \<^verbatim>\<open>generatedContent\<close> holds
  one. A \<^verbatim>\<open>Date\<close> is its number of milliseconds. The fields of an itinerary row carry
  the prefix \<open>it_\<close>, those of a generation request \<open>rq_\<close>.
\<close>

datatype json =
    JNull
  | JBool bool
  | JNum real
  | JStr string
  | JArr "json list"
  | JObj "(string \<times> json) list"

type_synonym date = int

record Itinerary =
  it_id :: int
  it_userId :: int
  it_title :: string
  it_description :: "string option"
  it_location :: string
  it_startDate :: string
  it_endDate :: string
  it_tripType :: string
  it_transport :: string
  it_accommodation :: string
  it_dining :: string
  it_ageGroup :: string
  it_interests :: string
  it_generatedContent :: json
  it_status :: string
  it_createdAt :: date
  it_updatedAt :: date

text \<open>
  \<^verbatim>\<open>Partial<UpdateItinerary>\<close>: each of the four keys that \<^verbatim>\<open>updateItinerarySchema\<close>
  picks is absent (\<open>None\<close>) or present with a value.
\<close>

record UpdateItinerary =
  u_title :: "string option"
  u_description :: "string option option"
  u_generatedContent :: "json option"
  u_status :: "string option"

text \<open>
  The object \<^verbatim>\<open>{ ...itinerary, ...updates, updatedAt: new Date() }\<close> of \<^verbatim>\<open>MemStorage\<close>,
  which is also the row after \<^verbatim>\<open>.set({ ...updates, updatedAt: new Date() })\<close> of
  \<^verbatim>\<open>PgStorage\<close>; \<open>now\<close> is the value of \<^verbatim>\<open>new Date()\<close>.
\<close>

definition spreadUpdates :: "Itinerary \<Rightarrow> UpdateItinerary \<Rightarrow> date \<Rightarrow> Itinerary" where
  "spreadUpdates itinerary updates now =
     itinerary
       \<lparr> it_title := (case u_title updates of None \<Rightarrow> it_title itinerary | Some v \<Rightarrow> v),
         it_description :=
           (case u_description updates of None \<Rightarrow> it_description itinerary | Some v \<Rightarrow> v),
         it_generatedContent :=
           (case u_generatedContent updates of
              None \<Rightarrow> it_generatedContent itinerary | Some v \<Rightarrow> v),
         it_status := (case u_status updates of None \<Rightarrow> it_status itinerary | Some v \<Rightarrow> v),
         it_updatedAt := now \<rparr>"

text \<open>\<^verbatim>\<open>MemStorage\<close>: the map \<^verbatim>\<open>itineraries\<close> from an id to its record.\<close>

definition MemStorage_getItinerary :: "(int \<rightharpoonup> Itinerary) \<Rightarrow> int \<Rightarrow> Itinerary option" where
  "MemStorage_getItinerary itineraries i = itineraries i"

definition MemStorage_updateItinerary ::
  "(int \<rightharpoonup> Itinerary) \<Rightarrow> int \<Rightarrow> UpdateItinerary \<Rightarrow> date
     \<Rightarrow> Itinerary option \<times> (int \<rightharpoonup> Itinerary)" where
  "MemStorage_updateItinerary itineraries i updates now =
     (case itineraries i of
        None \<Rightarrow> (None, itineraries)
      | Some itinerary \<Rightarrow>
          (let updatedItinerary = spreadUpdates itinerary updates now
           in (Some updatedItinerary, itineraries(i \<mapsto> updatedItinerary))))"

text \<open>
  \<^verbatim>\<open>PgStorage\<close>: the table \<^verbatim>\<open>itineraries\<close> is the list of its rows. A query selects
  the rows whose \<open>id\<close> column equals the argument; \<^verbatim>\<open>const [row] = ...\<close> takes the first
  of them, \<^verbatim>\<open>undefined\<close> when there is none. The database itself is taken to answer
  every query.
\<close>

definition firstRow :: "Itinerary list \<Rightarrow> Itinerary option" where
  "firstRow rows = (case rows of [] \<Rightarrow> None | r # _ \<Rightarrow> Some r)"

definition PgStorage_getItinerary :: "Itinerary list \<Rightarrow> int \<Rightarrow> Itinerary option" where
  "PgStorage_getItinerary table i = firstRow (filter (\<lambda>r. it_id r = i) table)"

definition PgStorage_updateItinerary ::
  "Itinerary list \<Rightarrow> int \<Rightarrow> UpdateItinerary \<Rightarrow> date \<Rightarrow> Itinerary option \<times> Itinerary list" where
  "PgStorage_updateItinerary table i updates now =
     (let returning = map (\<lambda>r. spreadUpdates r updates now) (filter (\<lambda>r. it_id r = i) table);
          table' = map (\<lambda>r. if it_id r = i then spreadUpdates r updates now else r) table
      in (firstRow returning, table'))"


section \<open>Itinerary generation\<close>

record ItineraryRequest =
  rq_location :: string
  rq_startDate :: string
  rq_endDate :: string
  rq_tripType :: string
  rq_transport :: string
  rq_accommodation :: string
  rq_dining :: string
  rq_ageGroup :: string
  rq_interests :: string

text \<open>
  What \<^verbatim>\<open>openai.chat.completions.create\<close> does with one request: the call rejects
  (network error, a status that is not 2xx), or it answers without a first choice, or
  the first choice has a message whose content is a string or \<^verbatim>\<open>null\<close>. The prompt
  embeds the nine fields of the request and nothing else that varies, so the
  collaborator \<open>openai\<close> is a function of the request. \<open>parse\<close> is \<^verbatim>\<open>JSON.parse\<close>,
  \<open>None\<close> when it throws.
\<close>

datatype completion = ApiFailure | NoChoice | Content "string option"

definition generationError :: error where
  "generationError = Error ''Failed to generate itinerary. Please try again.''"

definition generateItinerary ::
  "(ItineraryRequest \<Rightarrow> completion) \<Rightarrow> (string \<Rightarrow> json option) \<Rightarrow> ItineraryRequest
     \<Rightarrow> error + json" where
  "generateItinerary openai parse request =
     (case openai request of
        ApiFailure \<Rightarrow> Inl generationError
      | NoChoice \<Rightarrow> Inl generationError
      | Content content \<Rightarrow>
          (case parse (if truthyStr content then the content else ''{}'') of
             None \<Rightarrow> Inl generationError
           | Some result \<Rightarrow> Inr result))"

text \<open>
  The handler of \<^verbatim>\<open>POST /api/itineraries/:id/generate\<close> over \<^verbatim>\<open>PgStorage\<close>, the
  storage the module exports. The request carries the id of the authenticated user
  (\<open>None\<close> when \<^verbatim>\<open>req.isAuthenticated()\<close> is false) and the itinerary id read from the
  path. The handler returns its response and the table it leaves.
\<close>

record generate_request =
  gr_user :: "int option"
  gr_id :: int

definition requestOf :: "Itinerary \<Rightarrow> ItineraryRequest" where
  "requestOf itinerary =
     \<lparr> rq_location = it_location itinerary,
       rq_startDate = it_startDate itinerary,
       rq_endDate = it_endDate itinerary,
       rq_tripType = it_tripType itinerary,
       rq_transport = it_transport itinerary,
       rq_accommodation = it_accommodation itinerary,
       rq_dining = it_dining itinerary,
       rq_ageGroup = it_ageGroup itinerary,
       rq_interests = it_interests itinerary \<rparr>"

definition generatedUpdate :: "json \<Rightarrow> UpdateItinerary" where
  "generatedUpdate generatedContent =
     \<lparr> u_title = None, u_description = None,
       u_generatedContent = Some generatedContent, u_status = Some ''generated'' \<rparr>"

definition generate_route ::
  "(ItineraryRequest \<Rightarrow> completion) \<Rightarrow> (string \<Rightarrow> json option) \<Rightarrow> date
     \<Rightarrow> generate_request \<Rightarrow> Itinerary list
     \<Rightarrow> (Itinerary option) response \<times> Itinerary list" where
  "generate_route openai parse now req table =
     (case gr_user req of
        None \<Rightarrow> (Failure 401 ''Authentication required'', table)
      | Some user \<Rightarrow>
          (case PgStorage_getItinerary table (gr_id req) of
             None \<Rightarrow> (Failure 404 ''Itinerary not found'', table)
           | Some itinerary \<Rightarrow>
               if it_userId itinerary \<noteq> user then (Failure 403 ''Access denied'', table)
               else
                 (case generateItinerary openai parse (requestOf itinerary) of
                    Inl e \<Rightarrow> (Failure 500 ''Failed to generate itinerary'', table)
                  | Inr generatedContent \<Rightarrow>
                      (let (updatedItinerary, table') =
                             PgStorage_updateItinerary table (it_id itinerary)
                               (generatedUpdate generatedContent) now
                       in (Json 200 updatedItinerary, table')))))"


section \<open>The display type as the specification words it\<close>

text \<open>
  Stated from the specification, not from the code: the label of the first tag of the
  fixed priority order that the place carries, and \<open>Attraction\<close> when it carries none.
\<close>

definition priorityOrder :: "string list" where
  "priorityOrder =
     [''tourist_attraction'', ''museum'', ''amusement_park'', ''zoo'', ''aquarium'',
      ''art_gallery'', ''park'', ''natural_feature'', ''point_of_interest'']"

definition displayTypeByPriority :: "string list \<Rightarrow> string" where
  "displayTypeByPriority tags =
     (case find (\<lambda>k. List.member tags k) priorityOrder of
        None \<Rightarrow> ''Attraction''
      | Some k \<Rightarrow> (case typeMap k of Some label \<Rightarrow> label | None \<Rightarrow> ''Attraction''))"


section \<open>Example values\<close>

definition env0 :: environment where
  "env0 = \<lparr> GOOGLE_PLACES_API_KEY = Some ''test-key'', GOOGLE_MAPS_API = None \<rparr>"

definition louvre :: GooglePlace where
  "louvre =
     \<lparr> place_id = ''place-louvre'', name = ''Louvre'',
       geometry = Some (48.8606, 2.3376),
       types = [''museum'', ''tourist_attraction'', ''point_of_interest'', ''establishment''],
       rating = Some 4.7, user_ratings_total = Some 250000,
       vicinity = Some ''Rue de Rivoli, Paris'', photos = None \<rparr>"

definition hotel :: GooglePlace where
  "hotel =
     \<lparr> place_id = ''place-hotel'', name = ''Hotel du Nord'',
       geometry = Some (48.8712, 2.3655),
       types = [''lodging''],
       rating = None, user_ratings_total = None,
       vicinity = None, photos = None \<rparr>"

definition paris_query :: suggestions_query where
  "paris_query = \<lparr> q_lat = Some ''48.8566'', q_lng = Some ''2.3522'', q_radius = None \<rparr>"

definition parseFloat0 :: "string \<Rightarrow> real option" where
  "parseFloat0 s =
     (if s = ''48.8566'' then Some 48.8566 else if s = ''2.3522'' then Some 2.3522 else None)"

definition parseInt0 :: "string \<Rightarrow> int option" where
  "parseInt0 s = (if s = ''25000'' then Some 25000 else None)"

definition fetch_hotel :: "real \<Rightarrow> real \<Rightarrow> int option \<Rightarrow> string \<Rightarrow> fetch_result" where
  "fetch_hotel lat lng radius key =
     Body \<lparr> results = Some [hotel], status = ''OK'', error_message = None \<rparr>"

definition fetch_down :: "real \<Rightarrow> real \<Rightarrow> int option \<Rightarrow> string \<Rightarrow> fetch_result" where
  "fetch_down lat lng radius key = NetworkFailure"

definition numberToString0 :: "real \<Rightarrow> string" where
  "numberToString0 x = (if x = 4.7 then ''4.7'' else ''4'')"

definition rome :: Itinerary where
  "rome =
     \<lparr> it_id = 1, it_userId = 7, it_title = ''Roman holiday'', it_description = None,
       it_location = ''Rome'', it_startDate = ''2025-05-01'', it_endDate = ''2025-05-04'',
       it_tripType = ''couples'', it_transport = ''public'', it_accommodation = ''hotel'',
       it_dining = ''local'', it_ageGroup = ''adults'', it_interests = ''history'',
       it_generatedContent = JNull, it_status = ''draft'',
       it_createdAt = 1000, it_updatedAt = 1000 \<rparr>"

definition rome_request :: generate_request where
  "rome_request = \<lparr> gr_user = Some 7, gr_id = 1 \<rparr>"

definition parse0 :: "string \<Rightarrow> json option" where
  "parse0 s =
     (if s = ''{}'' then Some (JObj [])
      else if s = ''[1]'' then Some (JArr [JNum 1])
      else None)"


definition openai_list :: "ItineraryRequest \<Rightarrow> completion" where
  "openai_list request = Content (Some ''[1]'')"

definition openai_null :: "ItineraryRequest \<Rightarrow> completion" where
  "openai_null request = Content None"


definition fetch_louvre :: "real \<Rightarrow> real \<Rightarrow> int option \<Rightarrow> string \<Rightarrow> fetch_result" where
  "fetch_louvre lat lng radius key =
     Body \<lparr> results = Some [louvre, hotel], status = ''OK'', error_message = None \<rparr>"

definition rename_update :: UpdateItinerary where
  "rename_update =
     \<lparr> u_title = Some ''Rome in spring'', u_description = None,
       u_generatedContent = None, u_status = None \<rparr>"


section \<open>A suggestion without its distance\<close>

text \<open>
  The suggestion with the two strings computed from the distance blanked: what is
  left of it is compared between two runs of the conversion that drew different
  random numbers.
\<close>

definition withoutDistance :: "TravelSuggestion \<Rightarrow> TravelSuggestion" where
  "withoutDistance s = s\<lparr> ts_distance := [], ts_travelTime := [] \<rparr>"


section \<open>The display type\<close>

lemma typeMap_dom: "(typeMap t \<noteq> None) = (t \<in> set priorityOrder)"
  by (auto simp: typeMap_def typeMapEntries_def priorityOrder_def)

lemma getPlaceTypeLoop_find:
  "getPlaceTypeLoop ts =
     (case find (\<lambda>t. t \<in> set priorityOrder) ts of
        None \<Rightarrow> ''Attraction'' | Some t \<Rightarrow> the (typeMap t))"
proof (induction ts)
  case Nil
  show ?case by simp
next
  case (Cons t ts)
  show ?case
  proof (cases "typeMap t")
    case None
    with typeMap_dom [of t] have "t \<notin> set priorityOrder" by simp
    with None Cons show ?thesis by simp
  next
    case (Some label)
    with typeMap_dom [of t] have "t \<in> set priorityOrder" by simp
    with Some show ?thesis by simp
  qed
qed

lemma typeMapValue_own:
  "t \<notin> set objectPrototypeMembers \<Longrightarrow> typeMapValue t = map_option StringValue (typeMap t)"
  by (simp add: typeMapValue_def split: option.splits)

lemma getPlaceTypeValueLoop_own:
  "\<forall>t\<in>set ts. t \<notin> set objectPrototypeMembers \<Longrightarrow>
     getPlaceTypeValueLoop ts = StringValue (getPlaceTypeLoop ts)"
proof (induction ts)
  case Nil
  show ?case by simp
next
  case (Cons t ts)
  then have own: "typeMapValue t = map_option StringValue (typeMap t)"
    by (simp add: typeMapValue_own)
  from Cons have rest: "getPlaceTypeValueLoop ts = StringValue (getPlaceTypeLoop ts)"
    by simp
  show ?case
    by (cases "typeMap t") (simp_all add: own rest)
qed

text \<open>The loop on every tag list.\<close>

lemma getPlaceTypeValueLoop_find:
  "getPlaceTypeValueLoop ts =
     (case find (\<lambda>t. t \<in> set priorityOrder \<or> t \<in> set objectPrototypeMembers) ts of
        None \<Rightarrow> StringValue ''Attraction''
      | Some t \<Rightarrow> (case typeMap t of
                    Some label \<Rightarrow> StringValue label | None \<Rightarrow> InheritedMember t))"
proof (induction ts)
  case Nil
  show ?case by simp
next
  case (Cons t ts)
  show ?case
  proof (cases "typeMap t")
    case None
    with typeMap_dom [of t] have "t \<notin> set priorityOrder" by simp
    with None Cons show ?thesis by (simp add: typeMapValue_def)
  next
    case (Some label)
    with typeMap_dom [of t] have "t \<in> set priorityOrder" by simp
    with Some show ?thesis by (simp add: typeMapValue_def)
  qed
qed

text \<open>
  C5, as amended. For a place none of whose tags is the name of a member that every
  object inherits, the display type is the label of the first tag, in the order of the
  place's own tag list, that is one of the nine mapped tags; it is \<open>Attraction\<close> when
  the place has no such tag. The order of the nine tags among themselves plays no part.
\<close>

theorem getPlaceType_first_mapped_tag:
  assumes "\<forall>t\<in>set (types place). t \<notin> set objectPrototypeMembers"
  shows "getPlaceTypeValue place =
           StringValue (case find (\<lambda>t. t \<in> set priorityOrder) (types place) of
                          None \<Rightarrow> ''Attraction'' | Some t \<Rightarrow> the (typeMap t))
       \<and> getPlaceType place =
           (case find (\<lambda>t. t \<in> set priorityOrder) (types place) of
              None \<Rightarrow> ''Attraction'' | Some t \<Rightarrow> the (typeMap t))"
  using getPlaceTypeValueLoop_own [OF assms]
  by (simp add: getPlaceTypeValue_def getPlaceType_def getPlaceTypeLoop_find)

theorem getPlaceType_first_mapped_tag_witness:
  "list_all (\<lambda>t. t \<notin> set objectPrototypeMembers) (types louvre)
   \<and> getPlaceTypeValue louvre = StringValue ''Museum''
   \<and> getPlaceType louvre = ''Museum''"
proof -
  have tags: "\<forall>t\<in>set (types louvre). t \<notin> set objectPrototypeMembers"
    by (simp add: louvre_def objectPrototypeMembers_def)
  have first: "(case find (\<lambda>t. t \<in> set priorityOrder) (types louvre) of
                  None \<Rightarrow> ''Attraction'' | Some t \<Rightarrow> the (typeMap t)) = ''Museum''"
    by (simp add: louvre_def priorityOrder_def typeMap_def typeMapEntries_def)
  from getPlaceType_first_mapped_tag [OF tags] tags first show ?thesis
    by (simp add: list_all_iff)
qed

text \<open>
  C5 as stated fails: a place tagged \<open>museum\<close> before \<open>tourist_attraction\<close> is a
  \<open>Museum\<close>, where the fixed priority order gives \<open>Tourist Attraction\<close>.
\<close>

theorem getPlaceType_priority_counterexample:
  "getPlaceType louvre = ''Museum''
   \<and> getPlaceTypeValue louvre = StringValue ''Museum''
   \<and> displayTypeByPriority (types louvre) = ''Tourist Attraction''"
  by (simp add: getPlaceType_def getPlaceTypeValue_def typeMapValue_def louvre_def
        displayTypeByPriority_def typeMap_def typeMapEntries_def priorityOrder_def)

text \<open>
  At a tag that names an inherited member the function returns that member, which is
  not a label: the case the statement above leaves aside.
\<close>

lemma getPlaceTypeValue_inherited:
  "getPlaceTypeValue (louvre\<lparr>types := [''constructor'', ''museum'']\<rparr>)
     = InheritedMember ''constructor''"
  by (simp add: getPlaceTypeValue_def typeMapValue_def typeMap_def typeMapEntries_def
        objectPrototypeMembers_def)


section \<open>The bound on the number of suggestions\<close>

lemma ts_id_mapPlaceToSuggestion:
  "ts_id (mapPlaceToSuggestion env place a b) = place_id place"
  by (simp add: mapPlaceToSuggestion_def Let_def)

lemma ts_id_mapPlaceToSuggestion_svc:
  "ts_id (mapPlaceToSuggestion_svc n env place r) = place_id place"
  by (simp add: mapPlaceToSuggestion_svc_def Let_def)

lemma ts_id_enumerate:
  "map ts_id (map (\<lambda>(i, place). mapPlaceToSuggestion_svc n env place (rnd i)) (enumerate k xs))
     = map place_id xs"
  by (induction xs arbitrary: k) (simp_all add: ts_id_mapPlaceToSuggestion_svc)

lemma valid_louvre: "isValidTravelDestination louvre"
  by (simp add: isValidTravelDestination_def louvre_def travelTypes_def)

lemma hotel_not_valid: "\<not> isValidTravelDestination hotel"
  by (simp add: isValidTravelDestination_def hotel_def travelTypes_def)

text \<open>
  C4, as amended. The conversion with the great-circle distance returns the
  suggestions of the first (at most) 6 eligible places, in input order; the conversion
  at \<^verbatim>\<open>server/services/google-places.ts\<close> returns those of the first (at most) 8.
  Neither sorts.
\<close>

theorem convertToTravelSuggestions_truncation:
  "convertToTravelSuggestions env places userLat userLng =
      map (\<lambda>place. mapPlaceToSuggestion env place userLat userLng)
        (take 6 (filter isValidTravelDestination places))
   \<and> length (convertToTravelSuggestions env places userLat userLng) \<le> 6
   \<and> map ts_id (convertToTravelSuggestions env places userLat userLng)
       = map place_id (take 6 (filter isValidTravelDestination places))
   \<and> map ts_id (convertToTravelSuggestions_svc numberToString env places rnd)
       = map place_id (take 8 (filter isValidTravelDestination places))
   \<and> length (convertToTravelSuggestions_svc numberToString env places rnd) \<le> 8"
proof (intro conjI)
  show a: "convertToTravelSuggestions env places userLat userLng =
      map (\<lambda>place. mapPlaceToSuggestion env place userLat userLng)
        (take 6 (filter isValidTravelDestination places))"
    by (simp add: convertToTravelSuggestions_def take_map)
  show "length (convertToTravelSuggestions env places userLat userLng) \<le> 6"
    by (simp add: convertToTravelSuggestions_def)
  show "map ts_id (convertToTravelSuggestions env places userLat userLng)
       = map place_id (take 6 (filter isValidTravelDestination places))"
    by (simp add: a o_def ts_id_mapPlaceToSuggestion)
  show "map ts_id (convertToTravelSuggestions_svc numberToString env places rnd)
       = map place_id (take 8 (filter isValidTravelDestination places))"
    by (simp only: convertToTravelSuggestions_svc_def ts_id_enumerate)
  show "length (convertToTravelSuggestions_svc numberToString env places rnd) \<le> 8"
    by (simp add: convertToTravelSuggestions_svc_def)
qed

text \<open>
  C4 as stated fails on the copy at \<^verbatim>\<open>server/services/google-places.ts\<close>: seven
  eligible places give seven suggestions.
\<close>

theorem convertToTravelSuggestions_svc_seven_counterexample:
  "length (convertToTravelSuggestions_svc numberToString0 env0 (replicate 7 louvre) (\<lambda>i. 0)) = 7
   \<and> \<not> length (convertToTravelSuggestions_svc numberToString0 env0 (replicate 7 louvre) (\<lambda>i. 0))
         \<le> 6"
  by (simp add: convertToTravelSuggestions_svc_def valid_louvre)


section \<open>The travel-time string\<close>

lemmas show_simps = showNat.simps showInt_def digit_def toFixed1_def

lemma js_rem_nonneg: "0 \<le> m \<Longrightarrow> js_rem m 60 = m mod 60"
  by (cases "m = 0") (simp_all add: js_rem_def)

lemma floor_div_60: "Math_floor (of_int m / 60) = m div 60"
proof -
  have "\<lfloor>real_of_int m / real_of_int 60\<rfloor> = m div 60"
    by (rule floor_divide_of_int_eq)
  then show ?thesis by (simp add: Math_floor_def)
qed

lemma travelTimeStr_div_mod:
  "travelTimeStr m =
     (if m < 60 then showInt m @ ''min''
      else showInt (m div 60) @ ''h '' @ showInt (m mod 60) @ ''min'')"
  by (simp add: travelTimeStr_def floor_div_60 js_rem_nonneg)

text \<open>
  C6, as amended. With \<open>d\<close> the distance in kilometres of the suggestion: in the copy
  with the great-circle distance the minute count is \<open>m = round (d / 40 * 60)\<close> and the
  string is \<open>m\<close> followed by \<open>min\<close> when \<open>m < 60\<close>, otherwise \<open>m div 60\<close>, \<open>h\<close>,
  \<open>m mod 60\<close>, \<open>min\<close>. In the copy at \<^verbatim>\<open>server/services/google-places.ts\<close> the
  minute count is \<open>m = round (d * 12)\<close>, printed as \<open>m\<close> followed by \<open>min\<close> when
  \<open>m < 60\<close>.
\<close>

theorem travelTime_format:
  "ts_travelTime (mapPlaceToSuggestion env place userLat userLng) =
     (let d = distanceKm place userLat userLng;
          m = Math_round (d / 40 * 60)
      in if m < 60 then showInt m @ ''min''
         else showInt (m div 60) @ ''h '' @ showInt (m mod 60) @ ''min'')
   \<and> (let d = distanceKm_svc r;
           m = Math_round (d * 12)
       in m < 60 \<longrightarrow>
            ts_travelTime (mapPlaceToSuggestion_svc numberToString env place r)
              = showInt m @ ''min'')"
  by (simp add: mapPlaceToSuggestion_def mapPlaceToSuggestion_svc_def Let_def
        travelTimeStr_div_mod travelTimeMinutes_def travelTimeStr_svc_def
        travelTimeMinutes_svc_def)

theorem travelTime_format_witness:
  "Math_round (distanceKm_svc 0 * 12) < 60
   \<and> ts_travelTime (mapPlaceToSuggestion_svc numberToString0 env0 louvre 0) = ''12min''
   \<and> ts_travelTime (mapPlaceToSuggestion env0 louvre None None) = ''8min''"
  using travelTime_format [of env0 louvre None None 0 numberToString0]
  by (simp add: Let_def distanceKm_svc_def distanceKm_def truthyNum_def Math_round_def
        show_simps)

text \<open>
  C6 as stated fails on the copy at \<^verbatim>\<open>server/services/google-places.ts\<close>: at the
  draw 0 the distance is 1 km and the string is \<open>12min\<close>, where 40 km/h gives
  \<open>2min\<close>.
\<close>

theorem travelTime_svc_counterexample:
  "distanceKm_svc 0 = 1
   \<and> ts_travelTime (mapPlaceToSuggestion_svc numberToString0 env0 louvre 0) = ''12min''
   \<and> travelTimeStr (travelTimeMinutes (distanceKm_svc 0)) = ''2min''"
  by (simp add: mapPlaceToSuggestion_svc_def Let_def distanceKm_svc_def travelTimeStr_svc_def
        travelTimeMinutes_svc_def travelTimeStr_def travelTimeMinutes_def Math_round_def
        show_simps)


section \<open>The distance without a requester coordinate\<close>

lemma distanceKm_fallback:
  "\<not> truthyNum userLat \<or> \<not> truthyNum userLng \<Longrightarrow> distanceKm place userLat userLng = 5"
  by (auto simp: distanceKm_def)

lemma five_km: "distanceStr 5 = ''5.0km''"
  by (simp add: distanceStr_def show_simps)

lemma eight_min: "travelTimeStr (travelTimeMinutes 5) = ''8min''"
  by (simp add: travelTimeStr_def travelTimeMinutes_def Math_round_def show_simps)

lemma map_fallback:
  "\<not> truthyNum userLat \<or> \<not> truthyNum userLng \<Longrightarrow>
     ts_distance (mapPlaceToSuggestion env place userLat userLng) = ''5.0km''
     \<and> ts_travelTime (mapPlaceToSuggestion env place userLat userLng) = ''8min''"
  by (simp only: mapPlaceToSuggestion_def Let_def distanceKm_fallback five_km eight_min
        TravelSuggestion.simps simp_thms)

lemma valid_geometry:
  "isValidTravelDestination (place\<lparr>geometry := g\<rparr>) = isValidTravelDestination place"
  by (simp add: isValidTravelDestination_def)

lemma map_geometry:
  "mapPlaceToSuggestion env (place\<lparr>geometry := g\<rparr>) None None
     = mapPlaceToSuggestion env place None None"
  by (simp add: mapPlaceToSuggestion_def Let_def distanceKm_def truthyNum_def getPlaceType_def
      generateDescription_def generateHighlights_def determineBestFor_def ratingOrDefault_def
      locationOrDefault_def photoUrls_def)

lemma map_svc_geometry:
  "mapPlaceToSuggestion_svc n env (place\<lparr>geometry := g\<rparr>) r
     = mapPlaceToSuggestion_svc n env place r"
  by (simp add: mapPlaceToSuggestion_svc_def Let_def getPlaceType_def
      generateDescription_svc_def generateHighlights_def determineBestFor_def ratingOrDefault_def
      locationOrDefault_def photoUrls_def)

lemma convert_geometry:
  "convertToTravelSuggestions env (map (\<lambda>p. p\<lparr>geometry := g p\<rparr>) places) None None
     = convertToTravelSuggestions env places None None"
  by (simp add: convertToTravelSuggestions_def filter_map o_def map_geometry valid_geometry)

lemma enumerate_geometry:
  "map (\<lambda>(i, place). mapPlaceToSuggestion_svc n env place (rnd i))
       (enumerate k (map (\<lambda>p. p\<lparr>geometry := g p\<rparr>) xs))
   = map (\<lambda>(i, place). mapPlaceToSuggestion_svc n env place (rnd i)) (enumerate k xs)"
  by (induction xs arbitrary: k) (simp_all add: map_svc_geometry)

lemma convert_svc_geometry:
  "convertToTravelSuggestions_svc n env (map (\<lambda>p. p\<lparr>geometry := g p\<rparr>) places) rnd
     = convertToTravelSuggestions_svc n env places rnd"
  by (simp add: convertToTravelSuggestions_svc_def filter_map o_def valid_geometry take_map
        enumerate_geometry)

lemma convert_all_fallback:
  "list_all (\<lambda>s. ts_distance s = ''5.0km'' \<and> ts_travelTime s = ''8min'')
     (convertToTravelSuggestions env places None None)"
proof -
  have "\<And>p. ts_distance (mapPlaceToSuggestion env p None None) = ''5.0km''
     \<and> ts_travelTime (mapPlaceToSuggestion env p None None) = ''8min''"
    by (rule map_fallback) (simp add: truthyNum_def)
  then show ?thesis
    by (auto simp: convertToTravelSuggestions_def list_all_iff dest!: in_set_takeD)
qed

lemma search_relocate:
  "searchNearbyPlaces env (\<lambda>la lo r key. relocate g (fetch la lo r key)) lat lng radius
     = map_sum id (relocatePlaces g) (searchNearbyPlaces env fetch lat lng radius)"
  by (cases "fetch lat lng radius (the (GOOGLE_PLACES_API_KEY env))")
     (auto simp: searchNearbyPlaces_def relocate_def relocatePlaces_def split: option.splits)

lemma route_relocate:
  assumes "\<And>places. convert (relocatePlaces g places) = convert places"
  shows "location_suggestions_route convert parseFloat parseInt env
           (\<lambda>la lo r key. relocate g (fetch la lo r key)) q
         = location_suggestions_route convert parseFloat parseInt env fetch q"
  by (auto simp: location_suggestions_route_def Let_def search_relocate assms
        split: option.splits sum.splits)


text \<open>
  C10, as amended. In the copy with the great-circle distance, when the requester's
  latitude or longitude is absent or 0 the suggestion carries the distance of the 5 km
  fallback (\<open>5.0km\<close>, and \<open>8min\<close>), not a computed one. The route calls the
  conversion with the places alone, so what it answers is the same whatever the
  coordinates of the places are, over either copy. Over the copy with the great-circle
  distance every list it answers is the static fallback list or has \<open>5.0km\<close> in every
  suggestion. Over the copy at \<^verbatim>\<open>server/services/google-places.ts\<close>, the one
  \<^verbatim>\<open>routes.ts\<close> imports, every list it answers is the static fallback list or the
  conversion of some places, in which a suggestion's distance is \<open>20 r + 1\<close> kilometres
  for its random draw \<open>r\<close>.
\<close>

theorem distance_without_coordinate:
  "((userLat = None \<or> userLat = Some 0 \<or> userLng = None \<or> userLng = Some 0) \<longrightarrow>
      ts_distance (mapPlaceToSuggestion env place userLat userLng) = ''5.0km''
      \<and> ts_travelTime (mapPlaceToSuggestion env place userLat userLng) = ''8min'')
   \<and> (location_suggestions parseFloat parseInt env fetch q = Json code suggestions \<longrightarrow>
        suggestions = getFallbackSuggestions
        \<or> (\<exists>places. suggestions = convertToTravelSuggestions env places None None
              \<and> list_all (\<lambda>s. ts_distance s = ''5.0km'' \<and> ts_travelTime s = ''8min'')
                    suggestions))
   \<and> convertToTravelSuggestions env (map (\<lambda>p. p\<lparr>geometry := g p\<rparr>) places) None None
        = convertToTravelSuggestions env places None None
   \<and> location_suggestions parseFloat parseInt env
          (\<lambda>la lo r key. relocate g (fetch la lo r key)) q
        = location_suggestions parseFloat parseInt env fetch q
   \<and> (location_suggestions_svc numberToString rnd parseFloat parseInt env fetch q
          = Json code' suggestions' \<longrightarrow>
        suggestions' = getFallbackSuggestions
        \<or> (\<exists>places. suggestions'
               = convertToTravelSuggestions_svc numberToString env places rnd))
   \<and> ts_distance (mapPlaceToSuggestion_svc numberToString env place r)
        = distanceStr (r * 20 + 1)
   \<and> location_suggestions_svc numberToString rnd parseFloat parseInt env
          (\<lambda>la lo r key. relocate g (fetch la lo r key)) q
        = location_suggestions_svc numberToString rnd parseFloat parseInt env fetch q"
proof -
  have p1: "(userLat = None \<or> userLat = Some 0 \<or> userLng = None \<or> userLng = Some 0) \<longrightarrow>
      ts_distance (mapPlaceToSuggestion env place userLat userLng) = ''5.0km''
      \<and> ts_travelTime (mapPlaceToSuggestion env place userLat userLng) = ''8min''"
  proof
    assume "userLat = None \<or> userLat = Some 0 \<or> userLng = None \<or> userLng = Some 0"
    then have "\<not> truthyNum userLat \<or> \<not> truthyNum userLng"
      by (auto simp: truthyNum_def)
    then show "ts_distance (mapPlaceToSuggestion env place userLat userLng) = ''5.0km''
      \<and> ts_travelTime (mapPlaceToSuggestion env place userLat userLng) = ''8min''"
      by (rule map_fallback)
  qed
  have p2: "location_suggestions parseFloat parseInt env fetch q = Json code suggestions \<longrightarrow>
        suggestions = getFallbackSuggestions
        \<or> (\<exists>places. suggestions = convertToTravelSuggestions env places None None
              \<and> list_all (\<lambda>s. ts_distance s = ''5.0km'' \<and> ts_travelTime s = ''8min'')
                    suggestions)"
    by (auto simp: location_suggestions_def location_suggestions_route_def Let_def
          convert_all_fallback split: if_splits option.splits sum.splits)
  have p3: "convertToTravelSuggestions env (map (\<lambda>p. p\<lparr>geometry := g p\<rparr>) places) None None
        = convertToTravelSuggestions env places None None"
    by (rule convert_geometry)
  have p4: "location_suggestions parseFloat parseInt env
          (\<lambda>la lo r key. relocate g (fetch la lo r key)) q
        = location_suggestions parseFloat parseInt env fetch q"
    unfolding location_suggestions_def
    by (rule route_relocate) (simp add: relocatePlaces_def convert_geometry)
  have p5: "location_suggestions_svc numberToString rnd parseFloat parseInt env fetch q
          = Json code' suggestions' \<longrightarrow>
        suggestions' = getFallbackSuggestions
        \<or> (\<exists>places. suggestions'
               = convertToTravelSuggestions_svc numberToString env places rnd)"
    by (auto simp: location_suggestions_svc_def location_suggestions_route_def Let_def
          split: if_splits option.splits sum.splits)
  have p6: "ts_distance (mapPlaceToSuggestion_svc numberToString env place r)
        = distanceStr (r * 20 + 1)"
    by (simp add: mapPlaceToSuggestion_svc_def Let_def distanceKm_svc_def)
  have p7: "location_suggestions_svc numberToString rnd parseFloat parseInt env
          (\<lambda>la lo r key. relocate g (fetch la lo r key)) q
        = location_suggestions_svc numberToString rnd parseFloat parseInt env fetch q"
    unfolding location_suggestions_svc_def
    by (rule route_relocate) (simp add: relocatePlaces_def convert_svc_geometry)
  show ?thesis
    by (rule conjI [OF p1 conjI [OF p2 conjI [OF p3 conjI [OF p4 conjI [OF p5
          conjI [OF p6 p7]]]]]])
qed

lemma search_louvre: "searchNearbyPlaces env0 fetch_louvre la lo r = Inr [louvre, hotel]"
  by (simp add: searchNearbyPlaces_def env0_def truthyStr_def fetch_louvre_def)

lemma route_louvre:
  "location_suggestions parseFloat0 parseInt0 env0 fetch_louvre paris_query
     = Json 200 (convertToTravelSuggestions env0 [louvre, hotel] None None)"
  by (simp add: location_suggestions_def location_suggestions_route_def paris_query_def
        parseFloat0_def truthyStr_def Let_def search_louvre)

lemma route_svc_louvre:
  "location_suggestions_svc numberToString0 (\<lambda>i. 0) parseFloat0 parseInt0 env0 fetch_louvre
       paris_query
     = Json 200 (convertToTravelSuggestions_svc numberToString0 env0 [louvre, hotel] (\<lambda>i. 0))"
  by (simp add: location_suggestions_svc_def location_suggestions_route_def paris_query_def
        parseFloat0_def truthyStr_def Let_def search_louvre)

lemma one_suggestion:
  "length (convertToTravelSuggestions env0 [louvre, hotel] None None) = 1"
  by (simp add: convertToTravelSuggestions_def valid_louvre hotel_not_valid)

lemma one_suggestion_svc:
  "length (convertToTravelSuggestions_svc numberToString0 env0 [louvre, hotel] (\<lambda>i. 0)) = 1"
  by (simp add: convertToTravelSuggestions_svc_def valid_louvre hotel_not_valid)

lemma three_fallbacks: "length getFallbackSuggestions = 3"
  by (simp add: getFallbackSuggestions_def)

theorem distance_without_coordinate_witness:
  "ts_distance (mapPlaceToSuggestion env0 louvre (Some 0) (Some 2.3522)) = ''5.0km''
   \<and> ts_travelTime (mapPlaceToSuggestion env0 louvre (Some 0) (Some 2.3522)) = ''8min''
   \<and> location_suggestions parseFloat0 parseInt0 env0 fetch_louvre paris_query
       = Json 200 (convertToTravelSuggestions env0 [louvre, hotel] None None)
   \<and> length (convertToTravelSuggestions env0 [louvre, hotel] None None) = 1
   \<and> list_all (\<lambda>s. ts_distance s = ''5.0km'' \<and> ts_travelTime s = ''8min'')
       (convertToTravelSuggestions env0 [louvre, hotel] None None)
   \<and> location_suggestions_svc numberToString0 (\<lambda>i. 0) parseFloat0 parseInt0 env0 fetch_louvre
        paris_query
       = Json 200 (convertToTravelSuggestions_svc numberToString0 env0 [louvre, hotel] (\<lambda>i. 0))
   \<and> (\<exists>places. convertToTravelSuggestions_svc numberToString0 env0 [louvre, hotel] (\<lambda>i. 0)
         = convertToTravelSuggestions_svc numberToString0 env0 places (\<lambda>i. 0))"
proof -
  note inst = distance_without_coordinate
    [where userLat = "Some 0" and userLng = "Some 2.3522" and env = env0 and place = louvre
       and parseFloat = parseFloat0 and parseInt = parseInt0 and fetch = fetch_louvre
       and q = paris_query and code = 200
       and suggestions = "convertToTravelSuggestions env0 [louvre, hotel] None None"
       and numberToString = numberToString0 and rnd = "\<lambda>i. 0" and code' = 200
       and suggestions' =
         "convertToTravelSuggestions_svc numberToString0 env0 [louvre, hotel] (\<lambda>i. 0)"]
  from inst have a:
    "ts_distance (mapPlaceToSuggestion env0 louvre (Some 0) (Some 2.3522)) = ''5.0km''
     \<and> ts_travelTime (mapPlaceToSuggestion env0 louvre (Some 0) (Some 2.3522)) = ''8min''"
    by blast
  from one_suggestion three_fallbacks
  have n: "convertToTravelSuggestions env0 [louvre, hotel] None None \<noteq> getFallbackSuggestions"
    by auto
  from inst route_louvre n have b:
    "list_all (\<lambda>s. ts_distance s = ''5.0km'' \<and> ts_travelTime s = ''8min'')
       (convertToTravelSuggestions env0 [louvre, hotel] None None)"
    by blast
  from one_suggestion_svc three_fallbacks
  have n': "convertToTravelSuggestions_svc numberToString0 env0 [louvre, hotel] (\<lambda>i. 0)
      \<noteq> getFallbackSuggestions"
    by auto
  from inst route_svc_louvre n' have c:
    "\<exists>places. convertToTravelSuggestions_svc numberToString0 env0 [louvre, hotel] (\<lambda>i. 0)
         = convertToTravelSuggestions_svc numberToString0 env0 places (\<lambda>i. 0)"
    by blast
  from a route_louvre one_suggestion b route_svc_louvre c show ?thesis
    by blast
qed

text \<open>
  C10 as stated fails on the route as \<^verbatim>\<open>routes.ts\<close> wires it: no coordinate reaches
  the conversion, and at the draw 0 the one eligible place is answered with \<open>1.0km\<close>
  and \<open>12min\<close>, not with the 5 km fallback.
\<close>

theorem route_svc_distance_counterexample:
  "location_suggestions_svc numberToString0 (\<lambda>i. 0) parseFloat0 parseInt0 env0 fetch_louvre
       paris_query
     = Json 200 (convertToTravelSuggestions_svc numberToString0 env0 [louvre, hotel] (\<lambda>i. 0))
   \<and> map ts_distance (convertToTravelSuggestions_svc numberToString0 env0 [louvre, hotel] (\<lambda>i. 0))
       = [''1.0km'']
   \<and> map ts_travelTime
         (convertToTravelSuggestions_svc numberToString0 env0 [louvre, hotel] (\<lambda>i. 0))
       = [''12min'']"
proof -
  have d: "map ts_distance
       (convertToTravelSuggestions_svc numberToString0 env0 [louvre, hotel] (\<lambda>i. 0))
       = [''1.0km'']"
    by (simp add: convertToTravelSuggestions_svc_def valid_louvre hotel_not_valid
          mapPlaceToSuggestion_svc_def Let_def distanceKm_svc_def distanceStr_def show_simps)
  have t: "map ts_travelTime
       (convertToTravelSuggestions_svc numberToString0 env0 [louvre, hotel] (\<lambda>i. 0))
       = [''12min'']"
    by (simp add: convertToTravelSuggestions_svc_def valid_louvre hotel_not_valid
          mapPlaceToSuggestion_svc_def Let_def distanceKm_svc_def travelTimeStr_svc_def
          travelTimeMinutes_svc_def Math_round_def show_simps)
  show ?thesis
    by (rule conjI [OF route_svc_louvre conjI [OF d t]])
qed


section \<open>What the conversion depends on\<close>

lemma map_env:
  "GOOGLE_PLACES_API_KEY env = GOOGLE_PLACES_API_KEY env' \<Longrightarrow>
     mapPlaceToSuggestion env place a b = mapPlaceToSuggestion env' place a b"
  by (simp add: mapPlaceToSuggestion_def)

lemma map_svc_draw:
  "withoutDistance (mapPlaceToSuggestion_svc n env place r)
     = withoutDistance (mapPlaceToSuggestion_svc n env place r')"
  by (simp add: mapPlaceToSuggestion_svc_def withoutDistance_def Let_def)

lemma enumerate_draw:
  "map withoutDistance
     (map (\<lambda>(i, place). mapPlaceToSuggestion_svc n env place (rnd i)) (enumerate k xs))
   = map withoutDistance
       (map (\<lambda>(i, place). mapPlaceToSuggestion_svc n env place (rnd' i)) (enumerate k xs))"
proof (induction xs arbitrary: k)
  case Nil
  show ?case by simp
next
  case (Cons x xs)
  from Cons [of "Suc k"] map_svc_draw [of n env x "rnd k" "rnd' k"]
  show ?case by simp
qed

text \<open>
  C7, as amended. The conversion with the great-circle distance is determined by the
  place list, the requester coordinate and the configured API key: nothing else of the
  environment reaches its output. The conversion at
  \<^verbatim>\<open>server/services/google-places.ts\<close> computes the distance and the travel-time
  strings of each suggestion from a random draw \<open>r\<close> (the distance is \<open>20 r + 1\<close>);
  every other field of its output is the same whatever is drawn.
\<close>

theorem conversion_inputs_determine_output:
  "(GOOGLE_PLACES_API_KEY env = GOOGLE_PLACES_API_KEY env' \<longrightarrow>
      convertToTravelSuggestions env places userLat userLng
        = convertToTravelSuggestions env' places userLat userLng)
   \<and> map withoutDistance (convertToTravelSuggestions_svc numberToString env places rnd)
        = map withoutDistance (convertToTravelSuggestions_svc numberToString env places rnd')
   \<and> ts_distance (mapPlaceToSuggestion_svc numberToString env place r)
        = distanceStr (r * 20 + 1)
   \<and> ts_travelTime (mapPlaceToSuggestion_svc numberToString env place r)
        = travelTimeStr_svc (Math_round ((r * 20 + 1) * 12))"
proof -
  have p1: "GOOGLE_PLACES_API_KEY env = GOOGLE_PLACES_API_KEY env' \<longrightarrow>
      convertToTravelSuggestions env places userLat userLng
        = convertToTravelSuggestions env' places userLat userLng"
  proof
    assume "GOOGLE_PLACES_API_KEY env = GOOGLE_PLACES_API_KEY env'"
    then have "(\<lambda>place. mapPlaceToSuggestion env place userLat userLng)
        = (\<lambda>place. mapPlaceToSuggestion env' place userLat userLng)"
      by (intro ext map_env)
    then show "convertToTravelSuggestions env places userLat userLng
        = convertToTravelSuggestions env' places userLat userLng"
      by (simp only: convertToTravelSuggestions_def)
  qed
  have p2: "map withoutDistance (convertToTravelSuggestions_svc numberToString env places rnd)
        = map withoutDistance (convertToTravelSuggestions_svc numberToString env places rnd')"
    unfolding convertToTravelSuggestions_svc_def by (rule enumerate_draw)
  have p3: "ts_distance (mapPlaceToSuggestion_svc numberToString env place r)
        = distanceStr (r * 20 + 1)"
    by (simp add: mapPlaceToSuggestion_svc_def Let_def distanceKm_svc_def)
  have p4: "ts_travelTime (mapPlaceToSuggestion_svc numberToString env place r)
        = travelTimeStr_svc (Math_round ((r * 20 + 1) * 12))"
    by (simp add: mapPlaceToSuggestion_svc_def Let_def distanceKm_svc_def
          travelTimeMinutes_svc_def)
  show ?thesis
    by (rule conjI [OF p1 conjI [OF p2 conjI [OF p3 p4]]])
qed

theorem conversion_inputs_witness:
  "GOOGLE_PLACES_API_KEY env0
     = GOOGLE_PLACES_API_KEY (env0\<lparr>GOOGLE_MAPS_API := Some ''maps-key''\<rparr>)
   \<and> convertToTravelSuggestions env0 [louvre, hotel] (Some 48.8566) (Some 2.3522)
       = convertToTravelSuggestions (env0\<lparr>GOOGLE_MAPS_API := Some ''maps-key''\<rparr>)
           [louvre, hotel] (Some 48.8566) (Some 2.3522)"
  using conversion_inputs_determine_output
    [of env0 "env0\<lparr>GOOGLE_MAPS_API := Some ''maps-key''\<rparr>" "[louvre, hotel]"
        "Some 48.8566" "Some 2.3522"]
  by simp

text \<open>
  C7 as stated fails on the copy at \<^verbatim>\<open>server/services/google-places.ts\<close>: the same
  place list converted twice, with the draws 0 and 1/2, gives \<open>1.0km\<close> once and
  \<open>11.0km\<close> the other time.
\<close>

theorem conversion_svc_random_counterexample:
  "map ts_distance (convertToTravelSuggestions_svc numberToString0 env0 [louvre] (\<lambda>i. 0))
      = [''1.0km'']
   \<and> map ts_distance (convertToTravelSuggestions_svc numberToString0 env0 [louvre] (\<lambda>i. 1 / 2))
      = [''11.0km'']
   \<and> convertToTravelSuggestions_svc numberToString0 env0 [louvre] (\<lambda>i. 0)
       \<noteq> convertToTravelSuggestions_svc numberToString0 env0 [louvre] (\<lambda>i. 1 / 2)"
proof -
  have a: "map ts_distance
       (convertToTravelSuggestions_svc numberToString0 env0 [louvre] (\<lambda>i. 0)) = [''1.0km'']"
    by (simp add: convertToTravelSuggestions_svc_def valid_louvre mapPlaceToSuggestion_svc_def
          Let_def distanceKm_svc_def distanceStr_def show_simps)
  have b: "map ts_distance
       (convertToTravelSuggestions_svc numberToString0 env0 [louvre] (\<lambda>i. 1 / 2))
         = [''11.0km'']"
    by (simp add: convertToTravelSuggestions_svc_def valid_louvre mapPlaceToSuggestion_svc_def
          Let_def distanceKm_svc_def distanceStr_def show_simps)
  have c: "convertToTravelSuggestions_svc numberToString0 env0 [louvre] (\<lambda>i. 0)
       \<noteq> convertToTravelSuggestions_svc numberToString0 env0 [louvre] (\<lambda>i. 1 / 2)"
  proof
    assume "convertToTravelSuggestions_svc numberToString0 env0 [louvre] (\<lambda>i. 0)
       = convertToTravelSuggestions_svc numberToString0 env0 [louvre] (\<lambda>i. 1 / 2)"
    then have "map ts_distance
         (convertToTravelSuggestions_svc numberToString0 env0 [louvre] (\<lambda>i. 0))
       = map ts_distance
           (convertToTravelSuggestions_svc numberToString0 env0 [louvre] (\<lambda>i. 1 / 2))"
      by (rule arg_cong)
    then show False
      unfolding a b by simp
  qed
  show ?thesis
    by (rule conjI [OF a conjI [OF b c]])
qed


section \<open>The location-suggestions route\<close>

lemma search_fails_iff:
  "(\<exists>e. searchNearbyPlaces env fetch la lo radius = Inl e) =
     (\<not> truthyStr (GOOGLE_PLACES_API_KEY env)
      \<or> (\<exists>key. GOOGLE_PLACES_API_KEY env = Some key
            \<and> (fetch la lo radius key = NetworkFailure
               \<or> (\<exists>code txt. fetch la lo radius key = HttpFailure code txt)
               \<or> fetch la lo radius key = BodyNotJson
               \<or> (\<exists>data. fetch la lo radius key = Body data \<and> status data \<noteq> ''OK''))))"
  by (cases "GOOGLE_PLACES_API_KEY env";
      cases "fetch la lo radius (the (GOOGLE_PLACES_API_KEY env))")
     (auto simp: searchNearbyPlaces_def truthyStr_def)

lemma route_valid:
  assumes "q_lat q = Some lat_s" "lat_s \<noteq> []" "q_lng q = Some lng_s" "lng_s \<noteq> []"
    and "parseFloat lat_s = Some la" "parseFloat lng_s = Some lo"
  shows "location_suggestions_route convert parseFloat parseInt env fetch q =
     (case searchNearbyPlaces env fetch la lo
             (if truthyStr (q_radius q) then parseInt (the (q_radius q)) else Some 25000) of
        Inr places \<Rightarrow> Json 200 (convert places)
      | Inl apiError \<Rightarrow> Json 200 getFallbackSuggestions)"
  using assms by (simp add: location_suggestions_route_def truthyStr_def Let_def)

lemma convert_none_eligible:
  "filter isValidTravelDestination places = [] \<Longrightarrow>
     convertToTravelSuggestions env places a b = []
     \<and> convertToTravelSuggestions_svc n env places rnd = []"
  by (simp add: convertToTravelSuggestions_def convertToTravelSuggestions_svc_def)

lemma hotel_invalid: "filter isValidTravelDestination [hotel] = []"
  by (simp add: hotel_not_valid)

lemma search_hotel: "searchNearbyPlaces env0 fetch_hotel la lo r = Inr [hotel]"
  by (simp add: searchNearbyPlaces_def env0_def truthyStr_def fetch_hotel_def)

text \<open>
  C1, as amended. For a request with a latitude and a longitude that parse: when the
  place search throws (no API key, a network error, a status that is not a success, a
  body that is not JSON, a provider status other than \<open>OK\<close>) the route answers 200 with
  the static list of three suggestions \<open>fallback-1\<close>, \<open>fallback-2\<close>, \<open>fallback-3\<close>; no
  error reaches the caller. When the search succeeds and none of its places is
  eligible, the route answers 200 with the empty list. Both hold over either copy of
  the service.
\<close>

theorem location_suggestions_fallback:
  assumes "q_lat q = Some lat_s" "lat_s \<noteq> []" "q_lng q = Some lng_s" "lng_s \<noteq> []"
    and "parseFloat lat_s = Some la" "parseFloat lng_s = Some lo"
    and "radius = (if truthyStr (q_radius q) then parseInt (the (q_radius q)) else Some 25000)"
  shows "((\<not> truthyStr (GOOGLE_PLACES_API_KEY env)
      \<or> (\<exists>key. GOOGLE_PLACES_API_KEY env = Some key
            \<and> (fetch la lo radius key = NetworkFailure
               \<or> (\<exists>code txt. fetch la lo radius key = HttpFailure code txt)
               \<or> fetch la lo radius key = BodyNotJson
               \<or> (\<exists>data. fetch la lo radius key = Body data \<and> status data \<noteq> ''OK''))))
      \<longrightarrow> location_suggestions parseFloat parseInt env fetch q = Json 200 getFallbackSuggestions
          \<and> location_suggestions_svc numberToString rnd parseFloat parseInt env fetch q
              = Json 200 getFallbackSuggestions)
    \<and> (searchNearbyPlaces env fetch la lo radius = Inr places
          \<and> filter isValidTravelDestination places = []
      \<longrightarrow> location_suggestions parseFloat parseInt env fetch q = Json 200 []
          \<and> location_suggestions_svc numberToString rnd parseFloat parseInt env fetch q
              = Json 200 [])
    \<and> map ts_id getFallbackSuggestions = [''fallback-1'', ''fallback-2'', ''fallback-3'']"
proof -
  note rv = route_valid [OF assms(1-6), of _ parseInt env fetch, folded assms(7)]
  have p1: "(\<not> truthyStr (GOOGLE_PLACES_API_KEY env)
      \<or> (\<exists>key. GOOGLE_PLACES_API_KEY env = Some key
            \<and> (fetch la lo radius key = NetworkFailure
               \<or> (\<exists>code txt. fetch la lo radius key = HttpFailure code txt)
               \<or> fetch la lo radius key = BodyNotJson
               \<or> (\<exists>data. fetch la lo radius key = Body data \<and> status data \<noteq> ''OK''))))
      \<longrightarrow> location_suggestions parseFloat parseInt env fetch q = Json 200 getFallbackSuggestions
          \<and> location_suggestions_svc numberToString rnd parseFloat parseInt env fetch q
              = Json 200 getFallbackSuggestions"
  proof
    assume "\<not> truthyStr (GOOGLE_PLACES_API_KEY env)
      \<or> (\<exists>key. GOOGLE_PLACES_API_KEY env = Some key
            \<and> (fetch la lo radius key = NetworkFailure
               \<or> (\<exists>code txt. fetch la lo radius key = HttpFailure code txt)
               \<or> fetch la lo radius key = BodyNotJson
               \<or> (\<exists>data. fetch la lo radius key = Body data \<and> status data \<noteq> ''OK'')))"
    then obtain e where "searchNearbyPlaces env fetch la lo radius = Inl e"
      using search_fails_iff [of env fetch la lo radius] by blast
    then show "location_suggestions parseFloat parseInt env fetch q
            = Json 200 getFallbackSuggestions
          \<and> location_suggestions_svc numberToString rnd parseFloat parseInt env fetch q
              = Json 200 getFallbackSuggestions"
      by (simp add: location_suggestions_def location_suggestions_svc_def rv)
  qed
  have p2: "searchNearbyPlaces env fetch la lo radius = Inr places
          \<and> filter isValidTravelDestination places = []
      \<longrightarrow> location_suggestions parseFloat parseInt env fetch q = Json 200 []
          \<and> location_suggestions_svc numberToString rnd parseFloat parseInt env fetch q
              = Json 200 []"
    by (simp add: location_suggestions_def location_suggestions_svc_def rv convert_none_eligible)
  have p3: "map ts_id getFallbackSuggestions = [''fallback-1'', ''fallback-2'', ''fallback-3'']"
    by (simp add: getFallbackSuggestions_def)
  show ?thesis
    by (rule conjI [OF p1 conjI [OF p2 p3]])
qed

theorem location_suggestions_fallback_witness:
  "location_suggestions parseFloat0 parseInt0 env0 fetch_down paris_query
      = Json 200 getFallbackSuggestions
   \<and> location_suggestions_svc numberToString0 (\<lambda>i. 0) parseFloat0 parseInt0 env0 fetch_down
        paris_query
      = Json 200 getFallbackSuggestions
   \<and> searchNearbyPlaces env0 fetch_hotel 48.8566 2.3522 (Some 25000) = Inr [hotel]
   \<and> filter isValidTravelDestination [hotel] = []
   \<and> location_suggestions parseFloat0 parseInt0 env0 fetch_hotel paris_query = Json 200 []"
proof -
  have q: "q_lat paris_query = Some ''48.8566''" "''48.8566'' \<noteq> []"
          "q_lng paris_query = Some ''2.3522''" "''2.3522'' \<noteq> []"
          "parseFloat0 ''48.8566'' = Some 48.8566" "parseFloat0 ''2.3522'' = Some 2.3522"
          "Some 25000 = (if truthyStr (q_radius paris_query)
                         then parseInt0 (the (q_radius paris_query)) else Some 25000)"
    by (simp_all add: paris_query_def parseFloat0_def truthyStr_def)
  have down: "GOOGLE_PLACES_API_KEY env0 = Some ''test-key''"
             "fetch_down 48.8566 2.3522 (Some 25000) ''test-key'' = NetworkFailure"
    by (simp_all add: env0_def fetch_down_def)
  from location_suggestions_fallback
         [where q = paris_query and parseFloat = parseFloat0 and parseInt = parseInt0
            and env = env0 and fetch = fetch_down and numberToString = numberToString0
            and rnd = "\<lambda>i. 0" and places = "[hotel]", OF q] down
  have a: "location_suggestions parseFloat0 parseInt0 env0 fetch_down paris_query
      = Json 200 getFallbackSuggestions
   \<and> location_suggestions_svc numberToString0 (\<lambda>i. 0) parseFloat0 parseInt0 env0 fetch_down
        paris_query
      = Json 200 getFallbackSuggestions"
    by blast
  from location_suggestions_fallback
         [where q = paris_query and parseFloat = parseFloat0 and parseInt = parseInt0
            and env = env0 and fetch = fetch_hotel and numberToString = numberToString0
            and rnd = "\<lambda>i. 0" and places = "[hotel]", OF q] search_hotel hotel_invalid
  have b: "location_suggestions parseFloat0 parseInt0 env0 fetch_hotel paris_query = Json 200 []"
    by blast
  from a b search_hotel hotel_invalid show ?thesis by simp
qed

text \<open>
  C1 as stated fails: the search answers \<open>OK\<close> with one place that is not eligible,
  and the route answers the empty list, not the fallback list.
\<close>

theorem location_suggestions_empty_counterexample:
  "searchNearbyPlaces env0 fetch_hotel 48.8566 2.3522 (Some 25000) = Inr [hotel]
   \<and> filter isValidTravelDestination [hotel] = []
   \<and> location_suggestions parseFloat0 parseInt0 env0 fetch_hotel paris_query = Json 200 []
   \<and> location_suggestions parseFloat0 parseInt0 env0 fetch_hotel paris_query
        \<noteq> Json 200 getFallbackSuggestions
   \<and> location_suggestions_svc numberToString0 (\<lambda>i. 0) parseFloat0 parseInt0 env0 fetch_hotel
        paris_query = Json 200 []"
  by (simp add: search_hotel hotel_not_valid location_suggestions_def location_suggestions_svc_def
        location_suggestions_route_def paris_query_def parseFloat0_def truthyStr_def Let_def
        convertToTravelSuggestions_def convertToTravelSuggestions_svc_def
        getFallbackSuggestions_def)


section \<open>The table after an update\<close>

lemma firstRow_filter_id:
  "firstRow (filter (\<lambda>r. it_id r = i) table) = Some itinerary \<Longrightarrow> it_id itinerary = i"
  by (induction table) (auto simp: firstRow_def split: if_splits)

lemma spread_id: "it_id (spreadUpdates r u now) = it_id r"
  by (simp add: spreadUpdates_def)

lemma filter_updated:
  "filter (\<lambda>r. it_id r = i) (map (\<lambda>r. if it_id r = i then spreadUpdates r u now else r) table)
   = map (\<lambda>r. spreadUpdates r u now) (filter (\<lambda>r. it_id r = i) table)"
  by (induction table) (auto simp: spread_id)

lemma filter_other:
  "j \<noteq> i \<Longrightarrow>
   filter (\<lambda>r. it_id r = j) (map (\<lambda>r. if it_id r = i then spreadUpdates r u now else r) table)
   = filter (\<lambda>r. it_id r = j) table"
  by (induction table) (auto simp: spread_id)

lemma firstRow_map: "firstRow (map f rows) = map_option f (firstRow rows)"
  by (cases rows) (simp_all add: firstRow_def)

lemma Pg_update_fst:
  "PgStorage_getItinerary table i = Some itinerary \<Longrightarrow>
     fst (PgStorage_updateItinerary table i u now) = Some (spreadUpdates itinerary u now)"
  by (simp add: PgStorage_getItinerary_def PgStorage_updateItinerary_def Let_def firstRow_map)

lemma Pg_update_get:
  "PgStorage_getItinerary table i = Some itinerary \<Longrightarrow>
     PgStorage_getItinerary (snd (PgStorage_updateItinerary table i u now)) i
       = Some (spreadUpdates itinerary u now)"
  by (simp add: PgStorage_getItinerary_def PgStorage_updateItinerary_def Let_def firstRow_map
        filter_updated)

lemma Pg_update_other:
  "j \<noteq> i \<Longrightarrow>
     PgStorage_getItinerary (snd (PgStorage_updateItinerary table i u now)) j
       = PgStorage_getItinerary table j"
  by (simp add: PgStorage_getItinerary_def PgStorage_updateItinerary_def Let_def filter_other)

lemma Pg_get_id: "PgStorage_getItinerary table i = Some itinerary \<Longrightarrow> it_id itinerary = i"
  unfolding PgStorage_getItinerary_def by (rule firstRow_filter_id)

lemma rome_found: "PgStorage_getItinerary [rome] 1 = Some rome"
  by (simp add: PgStorage_getItinerary_def firstRow_def rome_def)

text \<open>
  C9. \<^verbatim>\<open>updateItinerary\<close> of either storage, on an id that is stored, returns the
  record with \<open>updatedAt\<close> set to the time of the call and each of \<open>title\<close>,
  \<open>description\<close>, \<open>generatedContent\<close>, \<open>status\<close> replaced when the updates carry it
  and kept otherwise; \<open>id\<close>, \<open>userId\<close>, the nine preference fields and \<open>createdAt\<close>
  keep their values, and so does every record stored under another id.
\<close>

theorem updateItinerary_frame:
  "(MemStorage_getItinerary itineraries i = Some itinerary \<longrightarrow>
      MemStorage_updateItinerary itineraries i updates now
        = (Some (spreadUpdates itinerary updates now),
           itineraries(i \<mapsto> spreadUpdates itinerary updates now)))
   \<and> (PgStorage_getItinerary table i = Some itinerary \<longrightarrow>
      fst (PgStorage_updateItinerary table i updates now)
        = Some (spreadUpdates itinerary updates now)
      \<and> PgStorage_getItinerary (snd (PgStorage_updateItinerary table i updates now)) i
        = Some (spreadUpdates itinerary updates now)
      \<and> (\<forall>j. j \<noteq> i \<longrightarrow>
            PgStorage_getItinerary (snd (PgStorage_updateItinerary table i updates now)) j
              = PgStorage_getItinerary table j))
   \<and> it_id (spreadUpdates itinerary updates now) = it_id itinerary
   \<and> it_userId (spreadUpdates itinerary updates now) = it_userId itinerary
   \<and> requestOf (spreadUpdates itinerary updates now) = requestOf itinerary
   \<and> it_createdAt (spreadUpdates itinerary updates now) = it_createdAt itinerary
   \<and> it_updatedAt (spreadUpdates itinerary updates now) = now
   \<and> it_title (spreadUpdates itinerary updates now)
        = (case u_title updates of None \<Rightarrow> it_title itinerary | Some v \<Rightarrow> v)
   \<and> it_description (spreadUpdates itinerary updates now)
        = (case u_description updates of None \<Rightarrow> it_description itinerary | Some v \<Rightarrow> v)
   \<and> it_generatedContent (spreadUpdates itinerary updates now)
        = (case u_generatedContent updates of
             None \<Rightarrow> it_generatedContent itinerary | Some v \<Rightarrow> v)
   \<and> it_status (spreadUpdates itinerary updates now)
        = (case u_status updates of None \<Rightarrow> it_status itinerary | Some v \<Rightarrow> v)"
proof -
  have mem: "MemStorage_getItinerary itineraries i = Some itinerary \<longrightarrow>
      MemStorage_updateItinerary itineraries i updates now
        = (Some (spreadUpdates itinerary updates now),
           itineraries(i \<mapsto> spreadUpdates itinerary updates now))"
    by (simp add: MemStorage_getItinerary_def MemStorage_updateItinerary_def Let_def)
  have pg: "PgStorage_getItinerary table i = Some itinerary \<longrightarrow>
      fst (PgStorage_updateItinerary table i updates now)
        = Some (spreadUpdates itinerary updates now)
      \<and> PgStorage_getItinerary (snd (PgStorage_updateItinerary table i updates now)) i
        = Some (spreadUpdates itinerary updates now)
      \<and> (\<forall>j. j \<noteq> i \<longrightarrow>
            PgStorage_getItinerary (snd (PgStorage_updateItinerary table i updates now)) j
              = PgStorage_getItinerary table j)"
    by (simp add: Pg_update_fst Pg_update_get Pg_update_other)
  have frame: "it_id (spreadUpdates itinerary updates now) = it_id itinerary
   \<and> it_userId (spreadUpdates itinerary updates now) = it_userId itinerary
   \<and> requestOf (spreadUpdates itinerary updates now) = requestOf itinerary
   \<and> it_createdAt (spreadUpdates itinerary updates now) = it_createdAt itinerary
   \<and> it_updatedAt (spreadUpdates itinerary updates now) = now
   \<and> it_title (spreadUpdates itinerary updates now)
        = (case u_title updates of None \<Rightarrow> it_title itinerary | Some v \<Rightarrow> v)
   \<and> it_description (spreadUpdates itinerary updates now)
        = (case u_description updates of None \<Rightarrow> it_description itinerary | Some v \<Rightarrow> v)
   \<and> it_generatedContent (spreadUpdates itinerary updates now)
        = (case u_generatedContent updates of
             None \<Rightarrow> it_generatedContent itinerary | Some v \<Rightarrow> v)
   \<and> it_status (spreadUpdates itinerary updates now)
        = (case u_status updates of None \<Rightarrow> it_status itinerary | Some v \<Rightarrow> v)"
    by (simp add: spreadUpdates_def requestOf_def)
  show ?thesis
    by (rule conjI [OF mem conjI [OF pg frame]])
qed

theorem updateItinerary_frame_witness:
  "MemStorage_getItinerary [1 \<mapsto> rome] 1 = Some rome
   \<and> PgStorage_getItinerary [rome] 1 = Some rome
   \<and> fst (MemStorage_updateItinerary [1 \<mapsto> rome] 1 rename_update 2000)
       = Some (rome\<lparr> it_title := ''Rome in spring'', it_updatedAt := 2000 \<rparr>)
   \<and> fst (PgStorage_updateItinerary [rome] 1 rename_update 2000)
       = Some (rome\<lparr> it_title := ''Rome in spring'', it_updatedAt := 2000 \<rparr>)
   \<and> PgStorage_getItinerary (snd (PgStorage_updateItinerary [rome] 1 rename_update 2000)) 2
       = PgStorage_getItinerary [rome] 2"
proof -
  have m: "MemStorage_getItinerary [1 \<mapsto> rome] 1 = Some rome"
    by (simp add: MemStorage_getItinerary_def)
  have s: "spreadUpdates rome rename_update 2000
      = rome\<lparr> it_title := ''Rome in spring'', it_updatedAt := 2000 \<rparr>"
    by (simp add: spreadUpdates_def rename_update_def rome_def)
  have d: "(2::int) \<noteq> 1" by simp
  from updateItinerary_frame [of "[1 \<mapsto> rome]" 1 rome rename_update 2000 "[rome]"]
       m rome_found d
  have "fst (MemStorage_updateItinerary [1 \<mapsto> rome] 1 rename_update 2000)
       = Some (spreadUpdates rome rename_update 2000)
   \<and> fst (PgStorage_updateItinerary [rome] 1 rename_update 2000)
       = Some (spreadUpdates rome rename_update 2000)
   \<and> PgStorage_getItinerary (snd (PgStorage_updateItinerary [rome] 1 rename_update 2000)) 2
       = PgStorage_getItinerary [rome] 2"
    by simp
  with m rome_found s show ?thesis
    by simp
qed


section \<open>The generation route\<close>



lemma spread_generated:
  "spreadUpdates itinerary (generatedUpdate payload) now
     = itinerary\<lparr> it_generatedContent := payload, it_status := ''generated'',
                  it_updatedAt := now \<rparr>"
  by (simp add: spreadUpdates_def generatedUpdate_def)



text \<open>
  C3. For an authenticated request of the owner on a stored itinerary, whatever its
  status: when the collaborator answers with a content that parses, the route answers
  200 with the record whose \<open>generatedContent\<close> is the parsed payload and whose
  \<open>status\<close> is \<open>generated\<close>, and that is the record read from the table afterwards;
  the payload the record had before is gone. A second generation on the record is
  one more instance.
\<close>

theorem generation_success_overwrites:
  assumes "gr_user req = Some user"
    and "PgStorage_getItinerary table (gr_id req) = Some itinerary"
    and "it_userId itinerary = user"
    and "openai (requestOf itinerary) = Content content"
    and "parse (if truthyStr content then the content else ''{}'') = Some payload"
  shows "fst (generate_route openai parse now req table)
           = Json 200 (Some (itinerary\<lparr> it_generatedContent := payload,
                                it_status := ''generated'', it_updatedAt := now \<rparr>))
    \<and> PgStorage_getItinerary (snd (generate_route openai parse now req table)) (gr_id req)
           = Some (itinerary\<lparr> it_generatedContent := payload,
                     it_status := ''generated'', it_updatedAt := now \<rparr>)"
proof -
  from assms(4,5) have g: "generateItinerary openai parse (requestOf itinerary) = Inr payload"
    by (simp add: generateItinerary_def)
  from assms(2) have i: "it_id itinerary = gr_id req"
    by (rule Pg_get_id)
  from assms(1-3) g i
  have r: "generate_route openai parse now req table
     = (Json 200 (fst (PgStorage_updateItinerary table (gr_id req) (generatedUpdate payload) now)),
        snd (PgStorage_updateItinerary table (gr_id req) (generatedUpdate payload) now))"
    by (simp add: generate_route_def split_beta)
  show ?thesis
    by (simp only: r fst_conv snd_conv Pg_update_fst [OF assms(2)] Pg_update_get [OF assms(2)]
          spread_generated simp_thms)
qed

theorem generation_success_witness:
  "fst (generate_route openai_list parse0 2000 rome_request [rome])
      = Json 200 (Some (rome\<lparr> it_generatedContent := JArr [JNum 1],
                               it_status := ''generated'', it_updatedAt := 2000 \<rparr>))
   \<and> fst (generate_route openai_null parse0 3000 rome_request
            (snd (generate_route openai_list parse0 2000 rome_request [rome])))
      = Json 200 (Some (rome\<lparr> it_generatedContent := JObj [],
                               it_status := ''generated'', it_updatedAt := 3000 \<rparr>))"
proof -
  have rq: "gr_user rome_request = Some 7" "gr_id rome_request = 1"
    by (simp_all add: rome_request_def)
  have found: "PgStorage_getItinerary [rome] (gr_id rome_request) = Some rome"
    by (simp add: rq rome_found)
  have owner: "it_userId rome = 7"
    by (simp add: rome_def)
  have c1: "openai_list (requestOf rome) = Content (Some ''[1]'')"
    by (simp add: openai_list_def)
  have p1: "parse0 (if truthyStr (Some ''[1]'') then the (Some ''[1]'') else ''{}'')
      = Some (JArr [JNum 1])"
    by (simp add: parse0_def truthyStr_def)
  note first = generation_success_overwrites
      [where openai = openai_list and parse = parse0 and now = 2000,
       OF rq(1) found owner c1 p1]
  let ?rome1 = "rome\<lparr> it_generatedContent := JArr [JNum 1],
                        it_status := ''generated'', it_updatedAt := 2000 \<rparr>"
  let ?table1 = "snd (generate_route openai_list parse0 2000 rome_request [rome])"
  from first have found1: "PgStorage_getItinerary ?table1 (gr_id rome_request) = Some ?rome1"
    by (rule conjunct2)
  have owner1: "it_userId ?rome1 = 7"
    by (simp add: rome_def)
  have c2: "openai_null (requestOf ?rome1) = Content None"
    by (simp add: openai_null_def)
  have p2: "parse0 (if truthyStr None then the None else ''{}'') = Some (JObj [])"
    by (simp add: parse0_def truthyStr_def)
  note second = generation_success_overwrites
      [where openai = openai_null and parse = parse0 and now = 3000,
       OF rq(1) found1 owner1 c2 p2]
  from first second show ?thesis
    by simp
qed

end
